theory Spec2Isabelle
  imports
    Main
    "HOL-Library.List_Lexorder"
    "HOL-Library.Char_ord"
    "HOL-Library.Product_Lexorder"
    "HOL-Library.Multiset"
    "HOL-Library.Sublist"
begin

section \<open>Strings, as Go has them\<close>

text \<open>
  A Go string is a sequence of bytes, and \<open><\<close> on strings compares them byte by byte.
  \<^typ>\<open>string\<close> is a list of bytes, and the lexicographic order of
  \<open>List_Lexorder\<close> over the byte order of \<open>Char_ord\<close> is that comparison.
  The glyphs of the program are written as their UTF-8 bytes.

  \<open>strings.ToLower\<close> and \<open>strings.TrimSpace\<close> work on bytes as long as the bytes
  are ASCII (below \<open>utf8.RuneSelf\<close>, 0x80) and hand the string to the Unicode tables
  otherwise: \<open>ToLower\<close> to \<open>Map(unicode.ToLower, s)\<close>, \<open>TrimSpace\<close> to
  \<open>TrimFunc(s, unicode.IsSpace)\<close> or \<open>TrimRightFunc(s, unicode.IsSpace)\<close>. The byte
  paths are modelled as they are written; the three Unicode functions are the fields of
  the parameter \<open>u\<close>, and what is proved with \<open>u\<close> free holds whatever they return.
\<close>

record unicode =
  MapToLower :: "string \<Rightarrow> string"
  TrimFuncSpace :: "string \<Rightarrow> string"
  TrimRightFuncSpace :: "string \<Rightarrow> string"

definition isASCII :: "char \<Rightarrow> bool" where
  "isASCII c = (of_char c < (128::nat))"

definition asciiUpper :: string where
  "asciiUpper = ''ABCDEFGHIJKLMNOPQRSTUVWXYZ''"

definition asciiLower :: string where
  "asciiLower = ''abcdefghijklmnopqrstuvwxyz''"

definition lowerByte :: "char \<Rightarrow> char" where
  "lowerByte c = (case map_of (zip asciiUpper asciiLower) c of Some l \<Rightarrow> l | None \<Rightarrow> c)"

text \<open>
  \<open>ToLower\<close>: a string of ASCII bytes only has its letters \<open>A\<close> to \<open>Z\<close> lowered;
  any other string goes to \<open>Map(unicode.ToLower, s)\<close>.
\<close>

definition ToLower :: "unicode \<Rightarrow> string \<Rightarrow> string" where
  "ToLower u s = (if list_all isASCII s then map lowerByte s else MapToLower u s)"

definition isSpace :: "char \<Rightarrow> bool" where
  "isSpace c = (c \<in> set [CHR 0x09, CHR 0x0A, CHR 0x0B, CHR 0x0C, CHR 0x0D, CHR 0x20])"

text \<open>
  \<open>TrimSpace\<close>: the first loop skips ASCII white space from the left and, where it
  meets a byte that is not ASCII, returns \<open>TrimFunc\<close> of what is left; the second loop
  does the same from the right, with \<open>TrimRightFunc\<close>. \<open>isSpace\<close> is the table
  \<open>asciiSpace\<close>.
\<close>

definition TrimSpace :: "unicode \<Rightarrow> string \<Rightarrow> string" where
  "TrimSpace u s =
     (let fromStart = dropWhile isSpace s in
      case fromStart of
        [] \<Rightarrow> []
      | c # cs \<Rightarrow>
          if \<not> isASCII c then TrimFuncSpace u fromStart
          else
            (case dropWhile isSpace (rev fromStart) of
               [] \<Rightarrow> []
             | d # ds \<Rightarrow>
                 if \<not> isASCII d then TrimRightFuncSpace u (rev (d # ds))
                 else rev (d # ds)))"

text \<open>\<open>strings.Contains\<close>: the second string occurs in the first as a contiguous run.\<close>

fun Contains :: "string \<Rightarrow> string \<Rightarrow> bool" where
  "Contains [] sub = (sub = [])"
| "Contains (c # cs) sub = (prefix sub (c # cs) \<or> Contains cs sub)"

text \<open>\<open>strings.Join\<close>.\<close>

fun Join :: "string list \<Rightarrow> string \<Rightarrow> string" where
  "Join [] sep = []"
| "Join [x] sep = x"
| "Join (x # y # ys) sep = x @ sep @ Join (y # ys) sep"

text \<open>\<open>strings.ReplaceAll\<close> for a pattern of one byte, which is how the program calls it.\<close>

definition ReplaceAllByte :: "string \<Rightarrow> char \<Rightarrow> string \<Rightarrow> string" where
  "ReplaceAllByte s old new = concat (map (\<lambda>c. if c = old then new else [c]) s)"

text \<open>\<open>strings.TrimSuffix\<close>.\<close>

definition TrimSuffix :: "string \<Rightarrow> string \<Rightarrow> string" where
  "TrimSuffix s suf = (if suffix suf s then take (length s - length suf) s else s)"

section \<open>Status tables\<close>

definition glyphDone :: string where
  "glyphDone = [CHR 0xF0, CHR 0x9F, CHR 0x9F, CHR 0xA3]"

definition glyphInProgress :: string where
  "glyphInProgress = [CHR 0xF0, CHR 0x9F, CHR 0x9F, CHR 0xA2]"

definition glyphAtRisk :: string where
  "glyphAtRisk = [CHR 0xF0, CHR 0x9F, CHR 0x9F, CHR 0xA1]"

definition glyphOffTrack :: string where
  "glyphOffTrack = [CHR 0xF0, CHR 0x9F, CHR 0x94, CHR 0xB4]"

definition glyphNotStarted :: string where
  "glyphNotStarted = [CHR 0xE2, CHR 0x9A, CHR 0xAA]"

definition glyphUnknown :: string where
  "glyphUnknown = [CHR 0xE2, CHR 0x9D, CHR 0x93]"

definition statusCategories :: "(string \<times> string) list" where
  "statusCategories =
    [(''done'', glyphDone),
     (''closed'', glyphDone),
     (''resolved'', glyphDone),
     (''in progress'', glyphInProgress),
     (''at risk'', glyphAtRisk),
     (''off track'', glyphOffTrack),
     (''blocked'', glyphOffTrack),
     (''not started'', glyphNotStarted),
     (''ready for work'', glyphNotStarted),
     (''vetting'', glyphNotStarted),
     (''new'', glyphNotStarted)]"

definition statusOrder :: "string list" where
  "statusOrder =
    [''done'', ''closed'', ''resolved'', ''in progress'', ''at risk'', ''off track'',
     ''blocked'', ''not started'', ''ready for work'', ''vetting'', ''new'']"

text \<open>
  \<open>statusPriority\<close> is filled by the loop \<open>for i, s := range statusOrder { m[s] = i }\<close>:
  a later entry would overwrite an earlier one.
\<close>

definition statusPriority :: "string \<rightharpoonup> int" where
  "statusPriority =
     foldl (\<lambda>m (i, s). m(s \<mapsto> int i)) Map.empty (enumerate 0 statusOrder)"

definition GetStatusEmoji :: "unicode \<Rightarrow> string \<Rightarrow> string" where
  "GetStatusEmoji u statusName =
     (case map_of statusCategories (ToLower u (TrimSpace u statusName)) of
        Some emoji \<Rightarrow> emoji
      | None \<Rightarrow> glyphUnknown)"

definition GetStatusPriority :: "unicode \<Rightarrow> string \<Rightarrow> int" where
  "GetStatusPriority u statusName =
     (case statusPriority (ToLower u (TrimSpace u statusName)) of
        Some p \<Rightarrow> p
      | None \<Rightarrow> 999)"

section \<open>Records\<close>

record IssueComment =
  Url :: string
  Created :: string

record IssueData =
  Key :: string
  URL :: string
  Summary :: string
  StatusName :: string
  Assignee :: string
  Priority :: string
  Created :: string
  Updated :: string
  TargetEnd :: string
  ParentKey :: string
  ParentSummary :: string
  ParentURL :: string
  Trending :: string
  Emoji :: string
  Comment :: IssueComment

text \<open>
  An instant is a \<open>time.Time\<close> read as its number of nanoseconds since the Unix epoch;
  \<open>Before\<close> and \<open>After\<close> compare instants, whatever the zone they were parsed in.
  A nil \<open>*time.Time\<close> is \<open>None\<close>.
\<close>

type_synonym instant = int

record ReportConfig =
  Title :: string
  ShowChildren :: bool
  Since :: "instant option"
  NoCommentSince :: "instant option"
  OutputFile :: string
  JSONOutput :: bool
  CSVOutput :: bool
  SlackOutput :: bool
  URLOutput :: bool
  JQLQuery :: string

section \<open>Dates\<close>

text \<open>
  \<open>time.Parse\<close> belongs to the Go standard library. The program's functions take it
  as the parameter \<open>tparse\<close>, from a layout and a value to the instant parsed, or
  \<open>None\<close> where \<open>time.Parse\<close> returns an error; what is proved with \<open>tparse\<close>
  free holds of every parser.
\<close>

type_synonym parser = "string \<Rightarrow> string \<Rightarrow> instant option"

definition RFC3339 :: string where
  "RFC3339 = ''2006-01-02T15:04:05Z07:00''"

definition formats :: "string list" where
  "formats =
    [''2006-01-02T15:04:05.000-0700'',
     ''2006-01-02T15:04:05.000Z'',
     ''2006-01-02T15:04:05-0700'',
     ''2006-01-02T15:04:05Z'',
     RFC3339,
     ''2006-01-02'']"

fun tryFormats :: "parser \<Rightarrow> string list \<Rightarrow> string \<Rightarrow> instant option" where
  "tryFormats tparse [] dateStr = None"
| "tryFormats tparse (format # rest) dateStr =
     (case tparse format dateStr of
        Some t \<Rightarrow> Some t
      | None \<Rightarrow> tryFormats tparse rest dateStr)"

definition isDigit :: "char \<Rightarrow> bool" where
  "isDigit c = (CHR ''0'' \<le> c \<and> c \<le> CHR ''9'')"

text \<open>
  The replacement of the regular expression \<open>(\d{2})(\d{2})$\<close> by \<open>$1:$2\<close>: a value
  that ends in four digits gets a colon before its last two; any other value is unchanged.
\<close>

definition fixOffset :: "string \<Rightarrow> string" where
  "fixOffset dateStr =
     (let n = length dateStr in
      if 4 \<le> n \<and> list_all isDigit (drop (n - 4) dateStr)
      then take (n - 2) dateStr @ '':'' @ drop (n - 2) dateStr
      else dateStr)"

definition ParseJiraDate :: "parser \<Rightarrow> string \<Rightarrow> instant option" where
  "ParseJiraDate tparse dateStr =
     (if dateStr = [] then None
      else case tryFormats tparse formats dateStr of
        Some t \<Rightarrow> Some t
      | None \<Rightarrow> tparse RFC3339 (fixOffset dateStr))"

section \<open>Filtering and sorting\<close>

text \<open>
  The body of the filter loop. \<open>droppedBySince\<close> is the first guard (each
  \<open>continue\<close> is \<open>True\<close>), \<open>droppedByComment\<close> the second.
\<close>

definition droppedBySince :: "parser \<Rightarrow> ReportConfig \<Rightarrow> IssueData \<Rightarrow> bool" where
  "droppedBySince tparse cfg issue =
     (case Since cfg of
        None \<Rightarrow> False
      | Some since \<Rightarrow>
          (let timestamp = Updated issue in
           if timestamp = [] \<or> timestamp = ''N/A'' then True
           else case ParseJiraDate tparse timestamp of
             None \<Rightarrow> True
           | Some updateDate \<Rightarrow> updateDate < since))"

definition droppedByComment :: "parser \<Rightarrow> ReportConfig \<Rightarrow> IssueData \<Rightarrow> bool" where
  "droppedByComment tparse cfg issue =
     (case NoCommentSince cfg of
        None \<Rightarrow> False
      | Some noCommentSince \<Rightarrow>
          IssueComment.Created (Comment issue) \<noteq> [] \<and>
          (case ParseJiraDate tparse (IssueComment.Created (Comment issue)) of
             None \<Rightarrow> False
           | Some commentDate \<Rightarrow> noCommentSince < commentDate))"

text \<open>The input slice holds pointers; a nil pointer is \<open>None\<close> and is skipped.\<close>

fun filterIssues :: "parser \<Rightarrow> ReportConfig \<Rightarrow> IssueData option list \<Rightarrow> IssueData list" where
  "filterIssues tparse cfg [] = []"
| "filterIssues tparse cfg (None # rest) = filterIssues tparse cfg rest"
| "filterIssues tparse cfg (Some issue # rest) =
     (if droppedBySince tparse cfg issue then filterIssues tparse cfg rest
      else if droppedByComment tparse cfg issue then filterIssues tparse cfg rest
      else issue # filterIssues tparse cfg rest)"

text \<open>The comparison function handed to \<open>sort.Slice\<close>.\<close>

definition issueLess :: "unicode \<Rightarrow> IssueData \<Rightarrow> IssueData \<Rightarrow> bool" where
  "issueLess u a b =
     (let pi = GetStatusPriority u (StatusName a);
          pj = GetStatusPriority u (StatusName b)
      in if pi \<noteq> pj then pi < pj
         else
           let ti = (if TargetEnd a = [] then ''9999-99-99'' else TargetEnd a);
               tj = (if TargetEnd b = [] then ''9999-99-99'' else TargetEnd b)
           in if ti \<noteq> tj then ti < tj
              else if Updated a \<noteq> Updated b then Updated a < Updated b
              else Summary a < Summary b)"

text \<open>
  \<open>sort.Slice\<close> belongs to the Go standard library: it calls \<open>pdqsort_func\<close> on the
  whole slice, with \<open>limit = bits.Len(length)\<close>. What the first round of that function
  does before it partitions is modelled as it is written.

  On a slice of at most twelve elements it runs the insertion sort
  \<^verbatim>\<open>for i := a + 1; i < b; i++ { for j := i; j > a && less(j, j-1); j-- { swap(j, j-1) } }\<close>
  of which \<open>insertBack\<close> is the inner loop, moving the new element leftwards over the
  sorted prefix, which is kept last element first.
\<close>

fun insertBack :: "('a \<Rightarrow> 'a \<Rightarrow> bool) \<Rightarrow> 'a \<Rightarrow> 'a list \<Rightarrow> 'a list" where
  "insertBack lt x [] = [x]"
| "insertBack lt x (y # ys) =
     (if lt x y then y # insertBack lt x ys else x # y # ys)"

definition insertionSort :: "('a \<Rightarrow> 'a \<Rightarrow> bool) \<Rightarrow> 'a list \<Rightarrow> 'a list" where
  "insertionSort lt xs =
     rev (foldl (\<lambda>sorted_prefix x. insertBack lt x sorted_prefix) [] xs)"

text \<open>
  On a longer slice \<open>limit\<close> is not zero and no earlier partition was unbalanced, so the
  round begins with \<open>choosePivot_func\<close>. It reads the slice at three places (at nine,
  from fifty elements on), orders the indices by \<open>order2_func\<close> and counts how often two
  of them had to be exchanged: no exchange hints at an increasing slice, twelve at a
  decreasing one.
\<close>

datatype sortedHint = unknownHint | increasingHint | decreasingHint

definition order2 ::
  "('a \<Rightarrow> 'a \<Rightarrow> bool) \<Rightarrow> 'a list \<Rightarrow> nat \<Rightarrow> nat \<Rightarrow> nat \<Rightarrow> (nat \<times> nat) \<times> nat" where
  "order2 lt data a b swaps =
     (if lt (data ! b) (data ! a) then ((b, a), swaps + 1) else ((a, b), swaps))"

definition median ::
  "('a \<Rightarrow> 'a \<Rightarrow> bool) \<Rightarrow> 'a list \<Rightarrow> nat \<Rightarrow> nat \<Rightarrow> nat \<Rightarrow> nat \<Rightarrow> nat \<times> nat" where
  "median lt data a b c swaps =
     (case order2 lt data a b swaps of
        ((a1, b1), swaps1) \<Rightarrow>
          (case order2 lt data b1 c swaps1 of
             ((b2, c2), swaps2) \<Rightarrow>
               (case order2 lt data a1 b2 swaps2 of
                  ((a3, b3), swaps3) \<Rightarrow> (b3, swaps3))))"

definition medianAdjacent ::
  "('a \<Rightarrow> 'a \<Rightarrow> bool) \<Rightarrow> 'a list \<Rightarrow> nat \<Rightarrow> nat \<Rightarrow> nat \<times> nat" where
  "medianAdjacent lt data a swaps = median lt data (a - 1) a (a + 1) swaps"

definition choosePivot :: "('a \<Rightarrow> 'a \<Rightarrow> bool) \<Rightarrow> 'a list \<Rightarrow> nat \<times> sortedHint" where
  "choosePivot lt data =
     (let l = length data;
          i0 = l div 4 * 1;
          j0 = l div 4 * 2;
          k0 = l div 4 * 3;
          (j, swaps) =
            (if 8 \<le> l then
               (if 50 \<le> l then
                  (case medianAdjacent lt data i0 0 of
                     (i1, swaps1) \<Rightarrow>
                       (case medianAdjacent lt data j0 swaps1 of
                          (j1, swaps2) \<Rightarrow>
                            (case medianAdjacent lt data k0 swaps2 of
                               (k1, swaps3) \<Rightarrow> median lt data i1 j1 k1 swaps3)))
                else median lt data i0 j0 k0 0)
             else (j0, 0))
      in (j, if swaps = 0 then increasingHint
             else if swaps = 12 then decreasingHint
             else unknownHint))"

text \<open>
  The first loop of \<open>partialInsertionSort_func\<close>,
  \<^verbatim>\<open>i := a + 1; for i < b && !less(i, i-1) { i++ }\<close>, followed by the test \<open>i == b\<close>:
  no element is less than the one before it.
\<close>

fun scansToEnd :: "('a \<Rightarrow> 'a \<Rightarrow> bool) \<Rightarrow> 'a list \<Rightarrow> bool" where
  "scansToEnd lt [] = True"
| "scansToEnd lt [x] = True"
| "scansToEnd lt (x # y # ys) = (\<not> lt y x \<and> scansToEnd lt (y # ys))"

text \<open>
  \<open>sortSlice\<close>. A decreasing hint makes \<open>pdqsort_func\<close> reverse the slice and take
  the hint for an increasing one; with an increasing hint it calls
  \<open>partialInsertionSort_func\<close>, which returns at once, the slice untouched, when its
  first loop reaches the end. In every other case the function goes on: it shifts up to
  five misplaced elements into place and, where that does not sort the slice, partitions
  around the pivot and sorts the parts, by heap sort if need be. That remainder is the
  parameter \<open>pdq\<close>: \<open>pdq lt data\<close> is the slice that \<open>pdqsort_func\<close> leaves when it
  is given \<open>data\<close> and the first loop does not reach the end. The library documents of
  it that it sorts, and that it need not keep equal elements in their order.
\<close>

type_synonym 'a pdqRemainder = "('a \<Rightarrow> 'a \<Rightarrow> bool) \<Rightarrow> 'a list \<Rightarrow> 'a list"

definition sortSlice :: "'a pdqRemainder \<Rightarrow> ('a \<Rightarrow> 'a \<Rightarrow> bool) \<Rightarrow> 'a list \<Rightarrow> 'a list" where
  "sortSlice pdq lt data =
     (if length data \<le> 12 then insertionSort lt data
      else
        (case choosePivot lt data of
           (pivot, hint) \<Rightarrow>
             let data1 = (if hint = decreasingHint then rev data else data);
                 hint1 = (if hint = decreasingHint then increasingHint else hint)
             in if hint1 = increasingHint \<and> scansToEnd lt data1 then data1
                else pdq lt data))"

text \<open>
  The documented contract of \<open>sort.Slice\<close>, for the remainder: on the slices it is
  called with, it returns a permutation in which no element is less than an earlier one.
\<close>

definition sortsLongSlices :: "'a pdqRemainder \<Rightarrow> ('a \<Rightarrow> 'a \<Rightarrow> bool) \<Rightarrow> bool" where
  "sortsLongSlices pdq lt =
     (\<forall>data. 12 < length data \<longrightarrow>
        mset (pdq lt data) = mset data \<and> sorted_wrt (\<lambda>a b. \<not> lt b a) (pdq lt data))"

definition filterAndSortIssues ::
  "unicode \<Rightarrow> IssueData pdqRemainder \<Rightarrow> parser \<Rightarrow> IssueData option list \<Rightarrow> ReportConfig \<Rightarrow>
     IssueData list" where
  "filterAndSortIssues u pdq tparse issues cfg =
     sortSlice pdq (issueLess u) (filterIssues tparse cfg issues)"

section \<open>Overdue issues\<close>

definition nanosPerDay :: int where
  "nanosPerDay = 86400 * 1000000000"

text \<open>
  \<open>now.Truncate(24 * time.Hour)\<close> rounds down to a multiple of a day counted from Go's
  zero time, which lies a whole number of days before the Unix epoch: on UTC instants it
  is the preceding midnight.
\<close>

definition Truncate24h :: "instant \<Rightarrow> instant" where
  "Truncate24h t = t - t mod nanosPerDay"

text \<open>\<open>time.Now().UTC()\<close> is the parameter \<open>now\<close>.\<close>

definition IsOverdue :: "unicode \<Rightarrow> parser \<Rightarrow> instant \<Rightarrow> string \<Rightarrow> string \<Rightarrow> bool" where
  "IsOverdue u tparse now statusName targetEnd =
     (let status = ToLower u (TrimSpace u statusName) in
      if status = ''done'' \<or> status = ''resolved'' then False
      else if targetEnd = [] \<or> targetEnd = ''None'' then False
      else if \<not> Contains targetEnd ''T'' then
        (case tparse ''2006-01-02'' targetEnd of
           None \<Rightarrow> False
         | Some dueDate \<Rightarrow> dueDate < Truncate24h now)
      else
        (case ParseJiraDate tparse targetEnd of
           None \<Rightarrow> False
         | Some dueTime \<Rightarrow> dueTime < now))"

section \<open>Raw issues\<close>

text \<open>
  A decoded JSON value. A \<open>map[string]any\<close> is an association list read with
  \<^const>\<open>map_of\<close>, and a nil map is \<open>None\<close>. Numbers are never read by the functions
  modelled here.
\<close>

datatype json =
  JNull
  | JBool bool
  | JNum int
  | JStr string
  | JArr "json list"
  | JObj "(string \<times> json) list"

type_synonym jmap = "(string \<times> json) list option"

fun getString :: "jmap \<Rightarrow> string \<Rightarrow> string" where
  "getString None key = []"
| "getString (Some m) key = (case map_of m key of Some (JStr s) \<Rightarrow> s | _ \<Rightarrow> [])"

fun getMap :: "jmap \<Rightarrow> string \<Rightarrow> jmap" where
  "getMap None key = None"
| "getMap (Some m) key = (case map_of m key of Some (JObj sub) \<Rightarrow> Some sub | _ \<Rightarrow> None)"

text \<open>
  \<open>ExtractIssueData\<close>. The global \<open>customFields["Target end"]\<close>, the identifier that
  the field catalogue gave for the target date (empty when it gave none), is the
  parameter \<open>targetEndField\<close>. The record is returned with the zero \<open>Comment\<close>.
\<close>

definition ExtractIssueData ::
  "unicode \<Rightarrow> parser \<Rightarrow> instant \<Rightarrow> string \<Rightarrow> jmap \<Rightarrow> string \<Rightarrow> string \<Rightarrow> string \<Rightarrow>
     IssueData" where
  "ExtractIssueData u tparse now targetEndField issue serverURL parentKey0 parentSummary0 =
     (let fields = getMap issue ''fields'';
          issueKey = getString issue ''key'';
          statusObj = getMap fields ''status'';
          statusName0 = getString statusObj ''name'';
          statusName1 = (if statusName0 = [] then ''Unknown'' else statusName0);
          statusName = ToLower u (TrimSpace u statusName1);
          assigneeObj = getMap fields ''assignee'';
          assignee0 = getString assigneeObj ''displayName'';
          assignee = (if assignee0 = [] then ''N/A'' else assignee0);
          priorityObj = getMap fields ''priority'';
          priority0 = getString priorityObj ''name'';
          priority = (if priority0 = [] then ''None'' else priority0);
          created = getString fields ''created'';
          updated = getString fields ''updated'';
          targetEnd = (if targetEndField \<noteq> [] then getString fields targetEndField else []);
          summary = getString fields ''summary'';
          issueURL = serverURL @ ''/browse/'' @ issueKey;
          trending0 =
            (if statusName = ''done'' \<or> statusName = ''closed'' \<or> statusName = ''resolved''
             then ''done''
             else if statusName = ''not started'' \<or> statusName = ''ready for work'' \<or>
                     statusName = ''vetting'' \<or> statusName = ''new''
             then ''not started''
             else statusName);
          emoji0 = GetStatusEmoji u statusName;
          overdue = IsOverdue u tparse now statusName targetEnd;
          emoji = (if overdue then glyphOffTrack else emoji0);
          trending = (if overdue then ''overdue'' else trending0);
          parentKey = (if parentKey0 = [] then issueKey else parentKey0);
          parentSummary = (if parentSummary0 = [] then summary else parentSummary0);
          parentURL =
            (if parentKey \<noteq> issueKey then serverURL @ ''/browse/'' @ parentKey else issueURL)
      in \<lparr>Key = issueKey,
          URL = issueURL,
          Summary = summary,
          StatusName = statusName,
          Assignee = assignee,
          Priority = priority,
          Created = created,
          Updated = updated,
          TargetEnd = targetEnd,
          ParentKey = parentKey,
          ParentSummary = parentSummary,
          ParentURL = parentURL,
          Trending = trending,
          Emoji = emoji,
          Comment = \<lparr>Url = [], Created = []\<rparr>\<rparr>)"

section \<open>A parser for dates without a time of day\<close>

text \<open>
  \<open>dateOnlyParse\<close> instantiates the parameter \<open>tparse\<close> in the examples. Under the
  layout \<open>2006-01-02\<close> it reads what \<open>time.Parse\<close> reads: four digits, a dash, two
  digits of a month from 1 to 12, a dash, two digits of a day that the month has, and
  nothing more; the instant is midnight UTC of that day. The other layouts of
  \<open>ParseJiraDate\<close> all demand the letter \<open>T\<close> and a time of day, which the values of
  the examples do not have, and are answered with \<open>None\<close>.
\<close>

definition digitVal :: "char \<Rightarrow> int" where
  "digitVal c = int (of_char c) - 48"

definition isLeap :: "int \<Rightarrow> bool" where
  "isLeap y = (y mod 4 = 0 \<and> (y mod 100 \<noteq> 0 \<or> y mod 400 = 0))"

definition daysIn :: "int \<Rightarrow> int \<Rightarrow> int" where
  "daysIn m y =
     (if m = 2 then (if isLeap y then 29 else 28)
      else if m = 4 \<or> m = 6 \<or> m = 9 \<or> m = 11 then 30
      else 31)"

definition daysFromCivil :: "int \<Rightarrow> int \<Rightarrow> int \<Rightarrow> int" where
  "daysFromCivil y m d =
     (let y' = (if m \<le> 2 then y - 1 else y);
          era = y' div 400;
          yoe = y' - era * 400;
          doy = (153 * (if 2 < m then m - 3 else m + 9) + 2) div 5 + d - 1;
          doe = yoe * 365 + yoe div 4 - yoe div 100 + doy
      in era * 146097 + doe - 719468)"

fun parseDateOnly :: "string \<Rightarrow> instant option" where
  "parseDateOnly [y1, y2, y3, y4, s1, m1, m2, s2, d1, d2] =
     (if list_all isDigit [y1, y2, y3, y4, m1, m2, d1, d2] \<and> s1 = CHR ''-'' \<and> s2 = CHR ''-''
      then
        let y = 1000 * digitVal y1 + 100 * digitVal y2 + 10 * digitVal y3 + digitVal y4;
            m = 10 * digitVal m1 + digitVal m2;
            d = 10 * digitVal d1 + digitVal d2
        in if 1 \<le> m \<and> m \<le> 12 \<and> 1 \<le> d \<and> d \<le> daysIn m y
           then Some (daysFromCivil y m d * nanosPerDay)
           else None
      else None)"
| "parseDateOnly _ = None"

definition dateOnlyParse :: parser where
  "dateOnlyParse layout v = (if layout = ''2006-01-02'' then parseDateOnly v else None)"

section \<open>The deep link\<close>

text \<open>
  \<open>url.QueryEscape\<close>, as \<open>url.Values.Encode\<close> applies it: letters, digits and the
  marks \<open>- _ . ~\<close> stand for themselves, a space becomes \<open>+\<close>, and every other byte
  becomes \<open>%\<close> and its two upper-case hexadecimal digits.
\<close>

definition isAlnum :: "char \<Rightarrow> bool" where
  "isAlnum c =
     ((CHR ''a'' \<le> c \<and> c \<le> CHR ''z'') \<or> (CHR ''A'' \<le> c \<and> c \<le> CHR ''Z'') \<or>
      (CHR ''0'' \<le> c \<and> c \<le> CHR ''9''))"

definition shouldEscape :: "char \<Rightarrow> bool" where
  "shouldEscape c = (\<not> isAlnum c \<and> c \<notin> set ''-_.~'')"

definition upperhex :: string where
  "upperhex = ''0123456789ABCDEF''"

definition escapeByte :: "char \<Rightarrow> string" where
  "escapeByte c =
     (if shouldEscape c then
        (if c = CHR '' '' then ''+''
         else [CHR ''%'', upperhex ! (of_char c div 16), upperhex ! (of_char c mod 16)])
      else [c])"

definition QueryEscape :: "string \<Rightarrow> string" where
  "QueryEscape s = concat (map escapeByte s)"

text \<open>\<open>url.Values{"jql": {jql}}.Encode()\<close>: one key with one value.\<close>

definition encodeValue :: "string \<Rightarrow> string \<Rightarrow> string" where
  "encodeValue k v = QueryEscape k @ ''='' @ QueryEscape v"

definition RenderURLReport ::
  "unicode \<Rightarrow> IssueData pdqRemainder \<Rightarrow> parser \<Rightarrow> string \<Rightarrow> IssueData option list \<Rightarrow>
     ReportConfig \<Rightarrow> string" where
  "RenderURLReport u pdq tparse serverURL issues0 cfg =
     (let issues = filterAndSortIssues u pdq tparse issues0 cfg in
      if length issues = 0 then []
      else
        let keys = map Key issues;
            jql = ''key in ('' @ Join keys '', '' @ '') order by assignee ASC'';
            base = TrimSuffix serverURL ''/''
        in base @ ''/issues/?'' @ encodeValue ''jql'' jql)"

text \<open>
  Decoding a query component, for the spec's words "the query parameter decodes to":
  \<open>+\<close> is a space, \<open>%\<close> and two hexadecimal digits are the byte they name, and any
  other byte is itself. A \<open>%\<close> that two hexadecimal digits do not follow is an error.
\<close>

definition unhex :: "char \<Rightarrow> nat option" where
  "unhex c =
     map_of (zip ''0123456789ABCDEFabcdef''
       [0, 1, 2, 3, 4, 5, 6, 7, 8, 9, 10, 11, 12, 13, 14, 15, 10, 11, 12, 13, 14, 15]) c"

fun queryUnescape :: "string \<Rightarrow> string option" where
  "queryUnescape [] = Some []"
| "queryUnescape (c # rest) =
     (if c = CHR ''%'' then
        (case rest of
           h # l # rest' \<Rightarrow>
             (case (unhex h, unhex l) of
                (Some a, Some b) \<Rightarrow>
                  map_option ((#) (char_of (16 * a + b))) (queryUnescape rest')
              | _ \<Rightarrow> None)
         | _ \<Rightarrow> None)
      else if c = CHR ''+'' then map_option ((#) CHR '' '') (queryUnescape rest)
      else map_option ((#) c) (queryUnescape rest))"

section \<open>CSV fields\<close>

definition csvSep :: string where
  "csvSep = [CHR 0xF0, CHR 0x9F, CHR 0x90, CHR 0xB1]"

definition quoteByte :: char where
  "quoteByte = CHR 0x22"

definition newlineByte :: char where
  "newlineByte = CHR 0x0A"

definition escapeCSVField :: "string \<Rightarrow> string" where
  "escapeCSVField s =
     (if Contains s csvSep \<or> Contains s [newlineByte] \<or> Contains s [quoteByte]
      then [quoteByte] @ ReplaceAllByte s quoteByte [quoteByte, quoteByte] @ [quoteByte]
      else s)"

text \<open>
  A reader of CSV fields, for the spec's words "a compliant CSV reader keyed on that
  separator" (the program has no reader of its own). A field that opens with a quote runs
  to the first quote that is not doubled, a doubled quote standing for one quote, and that
  closing quote must be followed by the separator, a newline or the end of the input. Any
  other field runs to the next separator or newline and holds no quote. The reader returns
  the field and the input that is left.
\<close>

fun readQuoted :: "string \<Rightarrow> (string \<times> string) option" where
  "readQuoted [] = None"
| "readQuoted (c # cs) =
     (if c = quoteByte then
        (case cs of
           [] \<Rightarrow> Some ([], [])
         | d # ds \<Rightarrow>
             if d = quoteByte then map_option (apfst ((#) quoteByte)) (readQuoted ds)
             else Some ([], cs))
      else map_option (apfst ((#) c)) (readQuoted cs))"

fun readPlain :: "string \<Rightarrow> string \<Rightarrow> (string \<times> string) option" where
  "readPlain sep [] = Some ([], [])"
| "readPlain sep (c # cs) =
     (if prefix sep (c # cs) \<or> c = newlineByte then Some ([], c # cs)
      else if c = quoteByte then None
      else map_option (apfst ((#) c)) (readPlain sep cs))"

definition atFieldEnd :: "string \<Rightarrow> string \<Rightarrow> bool" where
  "atFieldEnd sep rest = (rest = [] \<or> prefix sep rest \<or> prefix [newlineByte] rest)"

definition csvReadField :: "string \<Rightarrow> string \<Rightarrow> (string \<times> string) option" where
  "csvReadField sep input =
     (case input of
        [] \<Rightarrow> Some ([], [])
      | c # cs \<Rightarrow>
          if c = quoteByte then
            (case readQuoted cs of
               None \<Rightarrow> None
             | Some (field, rest) \<Rightarrow> if atFieldEnd sep rest then Some (field, rest) else None)
          else readPlain sep input)"

text \<open>
  The fields of the first record of the input. Every field but the last is followed by
  the separator, which is not empty, so \<open>fuel\<close> above the length of the input is never
  used up.
\<close>

fun csvReadFields :: "nat \<Rightarrow> string \<Rightarrow> string \<Rightarrow> string list option" where
  "csvReadFields 0 sep input = None"
| "csvReadFields (Suc fuel) sep input =
     (case csvReadField sep input of
        None \<Rightarrow> None
      | Some (field, rest) \<Rightarrow>
          if sep \<noteq> [] \<and> prefix sep rest
          then map_option ((#) field) (csvReadFields fuel sep (drop (length sep) rest))
          else Some [field])"

definition csvReadRecord :: "string \<Rightarrow> string \<Rightarrow> string list option" where
  "csvReadRecord sep input = csvReadFields (Suc (length input)) sep input"

section \<open>Searching with pagination\<close>

text \<open>
  The tracker is a state machine of any state type \<open>'s\<close>: \<open>fieldApi\<close> answers the
  request for the field catalogue and \<open>searchApi\<close> a search request with the query, the
  field list, \<open>startAt\<close> and \<open>maxResults\<close>. An answer is an error or the decoded
  payload: for a search, the list \<open>getMapList(response, "issues")\<close> and the number
  \<open>getInt(response, "total")\<close>. Go's \<open>int\<close> is \<^typ>\<open>int\<close>: the counters stay between
  zero and \<open>maxResults\<close>.
\<close>

datatype error = RequestFailed | SliceBoundsPanic

type_synonym issueBlob = "(string \<times> json) list"

type_synonym 's fieldApi = "'s \<Rightarrow> (error + jmap list) \<times> 's"

type_synonym 's searchApi =
  "'s \<Rightarrow> string \<Rightarrow> string \<Rightarrow> int \<Rightarrow> int \<Rightarrow> (error + issueBlob list \<times> int) \<times> 's"

definition defaultPageSize :: int where
  "defaultPageSize = 50"

text \<open>
  \<open>loadCustomFields\<close> on the one name the program resolves, \<open>Target end\<close>: the identifier
  of the first catalogue entry of that name replaces the stored one.
\<close>

fun findField :: "jmap list \<Rightarrow> string \<Rightarrow> string option" where
  "findField [] name = None"
| "findField (f # fs) name =
     (if getString f ''name'' = name then Some (getString f ''id'') else findField fs name)"

definition loadCustomFields :: "'s fieldApi \<Rightarrow> string \<Rightarrow> 's \<Rightarrow> (error option \<times> string) \<times> 's" where
  "loadCustomFields fieldApi targetEndField st =
     (case fieldApi st of
        (Inl e, st') \<Rightarrow> ((Some e, targetEndField), st')
      | (Inr catalogue, st') \<Rightarrow>
          (case findField catalogue ''Target end'' of
             None \<Rightarrow> ((None, targetEndField), st')
           | Some ident \<Rightarrow> ((None, ident), st')))"

function searchLoop ::
  "'s searchApi \<Rightarrow> string \<Rightarrow> string \<Rightarrow> int \<Rightarrow> 's \<Rightarrow> issueBlob list \<Rightarrow> int \<Rightarrow> int \<Rightarrow>
     (error + issueBlob list) \<times> 's" where
  "searchLoop searchApi jql fieldList maxResults st allIssues0 startAt pageSize =
     (case searchApi st jql fieldList startAt pageSize of
        (Inl e, st') \<Rightarrow> (Inl e, st')
      | (Inr (issues, serverTotal), st') \<Rightarrow>
          let allIssues = allIssues0 @ issues in
          if serverTotal \<le> int (length allIssues) \<or> maxResults \<le> int (length allIssues)
          then (Inr allIssues, st')
          else if int (length issues) < pageSize then (Inr allIssues, st')
          else searchLoop searchApi jql fieldList maxResults st' allIssues (startAt + pageSize)
                 (min defaultPageSize (maxResults - int (length allIssues))))"
  by pat_completeness auto

termination searchLoop
  apply (relation "measures
     [\<lambda>(searchApi, jql, fieldList, maxResults, st, allIssues, startAt, pageSize).
        nat (maxResults - int (length allIssues)),
      \<lambda>(searchApi, jql, fieldList, maxResults, st, allIssues, startAt, pageSize).
        if pageSize \<le> 0 then 1 else 0]")
   apply simp
  apply (auto simp: defaultPageSize_def)
  done

definition buildFields :: "string \<Rightarrow> string" where
  "buildFields targetEndField =
     ''summary,status,assignee,priority,created,updated'' @
     (if targetEndField \<noteq> [] then '','' @ targetEndField else [])"

text \<open>
  \<open>SearchIssues\<close> returns the slice or the error, and beside it the identifier now stored
  in \<open>customFields\<close> and the tracker's state. A failure of \<open>loadCustomFields\<close> is only
  logged. \<open>allIssues[:maxResults]\<close> panics when \<open>maxResults\<close> is negative.
\<close>

definition SearchIssues ::
  "'s fieldApi \<Rightarrow> 's searchApi \<Rightarrow> string \<Rightarrow> string \<Rightarrow> int \<Rightarrow> 's \<Rightarrow>
     ((error + issueBlob list) \<times> string) \<times> 's" where
  "SearchIssues fieldApi searchApi targetEndField0 jql maxResults st0 =
     (case loadCustomFields fieldApi targetEndField0 st0 of
        ((warning, targetEndField), st1) \<Rightarrow>
          (case searchLoop searchApi jql (buildFields targetEndField) maxResults st1 [] 0
                  (min defaultPageSize maxResults) of
             (Inl e, st2) \<Rightarrow> ((Inl e, targetEndField), st2)
           | (Inr allIssues, st2) \<Rightarrow>
               if maxResults < int (length allIssues) then
                 (if maxResults < 0 then ((Inl SliceBoundsPanic, targetEndField), st2)
                  else ((Inr (take (nat maxResults) allIssues), targetEndField), st2))
               else ((Inr allIssues, targetEndField), st2)))"

text \<open>The slice that the caller holds: nil beside an error.\<close>

definition returnedIssues :: "(error + issueBlob list) \<Rightarrow> issueBlob list" where
  "returnedIssues r = (case r of Inl e \<Rightarrow> [] | Inr issues \<Rightarrow> issues)"

section \<open>The order the spec describes\<close>

text \<open>
  The four sort keys in the spec's words: the status priority, the target date with the
  empty string replaced by \<open>9999-99-99\<close>, the raw \<open>updated\<close> string, the summary.
  \<open>keysAscending a b\<close> says that \<open>a\<close> may stand before \<open>b\<close>: at the first key where
  they differ, \<open>a\<close> has the smaller one.
\<close>

definition targetEndKey :: "IssueData \<Rightarrow> string" where
  "targetEndKey r = (if TargetEnd r = [] then ''9999-99-99'' else TargetEnd r)"

definition sortKey :: "unicode \<Rightarrow> IssueData \<Rightarrow> int \<times> string \<times> string \<times> string" where
  "sortKey u r = (GetStatusPriority u (StatusName r), targetEndKey r, Updated r, Summary r)"

definition keysAscending :: "unicode \<Rightarrow> IssueData \<Rightarrow> IssueData \<Rightarrow> bool" where
  "keysAscending u a b =
     (GetStatusPriority u (StatusName a) < GetStatusPriority u (StatusName b) \<or>
      GetStatusPriority u (StatusName a) = GetStatusPriority u (StatusName b) \<and>
      (targetEndKey a < targetEndKey b \<or>
       targetEndKey a = targetEndKey b \<and>
       (Updated a < Updated b \<or>
        Updated a = Updated b \<and> Summary a \<le> Summary b)))"

section \<open>Example data\<close>

text \<open>
  The strings of the examples are ASCII, so the Unicode functions are never called on
  them, and the slices of the examples have at most twelve elements, so the remainder of
  \<open>pdqsort_func\<close> is never reached. \<open>noUnicode\<close> and \<open>insertionSort\<close> stand for the
  two parameters there.
\<close>

definition noUnicode :: unicode where
  "noUnicode =
     \<lparr>MapToLower = (\<lambda>s. s), TrimFuncSpace = (\<lambda>s. s), TrimRightFuncSpace = (\<lambda>s. s)\<rparr>"

definition blankIssue :: IssueData where
  "blankIssue =
     \<lparr>Key = [], URL = [], Summary = [], StatusName = [], Assignee = [], Priority = [],
      Created = [], Updated = [], TargetEnd = [], ParentKey = [], ParentSummary = [],
      ParentURL = [], Trending = [], Emoji = [], Comment = \<lparr>Url = [], Created = []\<rparr>\<rparr>"

definition noFilters :: ReportConfig where
  "noFilters =
     \<lparr>Title = ''Snippets!'', ShowChildren = False, Since = None, NoCommentSince = None,
      OutputFile = [], JSONOutput = False, CSVOutput = False, SlackOutput = False,
      URLOutput = False, JQLQuery = []\<rparr>"

definition issueDone :: IssueData where
  "issueDone = blankIssue\<lparr>Key := ''A-1'', StatusName := ''Done''\<rparr>"

definition issueInProgress :: IssueData where
  "issueInProgress = blankIssue\<lparr>Key := ''A-2'', StatusName := ''In Progress''\<rparr>"

text \<open>Five records that differ at each of the four sort keys in turn, and a sixth that
  equals the fifth in all four.\<close>

definition issueA :: IssueData where
  "issueA = blankIssue\<lparr>Key := ''A-1'', Summary := ''alpha'', StatusName := ''in progress'',
     Updated := ''2024-03-01''\<rparr>"

definition issueB :: IssueData where
  "issueB = blankIssue\<lparr>Key := ''A-2'', Summary := ''beta'', StatusName := ''in progress'',
     Updated := ''2024-03-01'', TargetEnd := ''2024-06-30''\<rparr>"

definition issueC :: IssueData where
  "issueC = blankIssue\<lparr>Key := ''A-3'', Summary := ''gamma'', StatusName := ''done'',
     Updated := ''2024-03-05''\<rparr>"

definition issueD :: IssueData where
  "issueD = blankIssue\<lparr>Key := ''A-4'', Summary := ''delta'', StatusName := ''in progress'',
     Updated := ''2024-02-01'', TargetEnd := ''2024-06-30''\<rparr>"

definition issueE :: IssueData where
  "issueE = blankIssue\<lparr>Key := ''A-5'', Summary := ''alpha'', StatusName := ''in progress'',
     Updated := ''2024-03-01'', TargetEnd := ''2024-06-30''\<rparr>"

definition issueF :: IssueData where
  "issueF = blankIssue\<lparr>Key := ''A-6'', Summary := ''alpha'', StatusName := ''in progress'',
     Updated := ''2024-03-01'', TargetEnd := ''2024-06-30''\<rparr>"

text \<open>
  Thirteen records, enough for \<open>sort.Slice\<close> to leave the insertion sort, that are in
  the order of their keys while those with equal keys are not in the order of their
  numbers.
\<close>

definition numbered :: "string \<Rightarrow> string \<Rightarrow> IssueData" where
  "numbered issueKey summary = blankIssue\<lparr>Key := issueKey, Summary := summary\<rparr>"

definition tiedThirteen :: "IssueData list" where
  "tiedThirteen =
     [numbered ''K06'' ''a'', numbered ''K02'' ''a'', numbered ''K13'' ''a'',
      numbered ''K10'' ''a'', numbered ''K07'' ''b'', numbered ''K05'' ''b'',
      numbered ''K09'' ''b'', numbered ''K12'' ''c'', numbered ''K01'' ''c'',
      numbered ''K08'' ''c'', numbered ''K04'' ''c'', numbered ''K11'' ''d'',
      numbered ''K03'' ''d'']"

text \<open>Midnight UTC of 2024-01-01, and records updated around it.\<close>

definition newYear2024 :: instant where
  "newYear2024 = 1704067200000000000"

definition sinceNewYear :: ReportConfig where
  "sinceNewYear = noFilters\<lparr>Since := Some newYear2024\<rparr>"

definition updatedBefore :: IssueData where
  "updatedBefore = blankIssue\<lparr>Key := ''U-1'', Updated := ''2023-12-31''\<rparr>"

definition updatedExactly :: IssueData where
  "updatedExactly = blankIssue\<lparr>Key := ''U-2'', Updated := ''2024-01-01''\<rparr>"

definition updatedNever :: IssueData where
  "updatedNever = blankIssue\<lparr>Key := ''U-3''\<rparr>"

definition updatedUnparsable :: IssueData where
  "updatedUnparsable = blankIssue\<lparr>Key := ''U-4'', Updated := ''soon''\<rparr>"

definition updatedAfter :: IssueData where
  "updatedAfter = blankIssue\<lparr>Key := ''U-5'', Updated := ''2024-02-01''\<rparr>"

text \<open>Records whose last comment lies around the same instant.\<close>

definition quietSinceNewYear :: ReportConfig where
  "quietSinceNewYear = noFilters\<lparr>NoCommentSince := Some newYear2024\<rparr>"

definition commentedAfter :: IssueData where
  "commentedAfter = blankIssue\<lparr>Key := ''Q-1'', Summary := ''a'',
     Comment := \<lparr>Url = ''c1'', Created = ''2024-02-01''\<rparr>\<rparr>"

definition commentedExactly :: IssueData where
  "commentedExactly = blankIssue\<lparr>Key := ''Q-2'', Summary := ''b'',
     Comment := \<lparr>Url = ''c2'', Created = ''2024-01-01''\<rparr>\<rparr>"

definition commentedNever :: IssueData where
  "commentedNever = blankIssue\<lparr>Key := ''Q-3'', Summary := ''c''\<rparr>"

definition commentedUnparsable :: IssueData where
  "commentedUnparsable = blankIssue\<lparr>Key := ''Q-4'', Summary := ''d'',
     Comment := \<lparr>Url = ''c4'', Created = ''yesterday''\<rparr>\<rparr>"

text \<open>Noon UTC of 2026-11-01, and raw issues as the tracker sends them.\<close>

definition noon20261101 :: instant where
  "noon20261101 = 1793534400000000000"

definition rawStatusOverdue :: jmap where
  "rawStatusOverdue =
     Some [(''key'', JStr ''A-7''),
           (''fields'', JObj [(''summary'', JStr ''late delivery''),
                              (''status'', JObj [(''name'', JStr ''Overdue'')])])]"

definition rawBlocked :: jmap where
  "rawBlocked =
     Some [(''key'', JStr ''A-8''),
           (''fields'', JObj [(''summary'', JStr ''waiting for review''),
                              (''status'', JObj [(''name'', JStr '' Blocked '')]),
                              (''customfield_10010'', JStr ''2020-01-01'')])]"

definition rawClosed :: jmap where
  "rawClosed =
     Some [(''key'', JStr ''A-9''),
           (''fields'', JObj [(''summary'', JStr ''shipped''),
                              (''status'', JObj [(''name'', JStr ''Closed'')]),
                              (''customfield_10010'', JStr ''2020-01-01'')])]"

definition recordStatusOverdue :: IssueData where
  "recordStatusOverdue =
     ExtractIssueData noUnicode dateOnlyParse noon20261101 ''customfield_10010'' rawStatusOverdue
       ''https://jira.example.com'' [] []"

definition recordBlocked :: IssueData where
  "recordBlocked =
     ExtractIssueData noUnicode dateOnlyParse noon20261101 ''customfield_10010'' rawBlocked
       ''https://jira.example.com'' [] []"

definition recordClosed :: IssueData where
  "recordClosed =
     ExtractIssueData noUnicode dateOnlyParse noon20261101 ''customfield_10010'' rawClosed
       ''https://jira.example.com'' [] []"

text \<open>Three records whose summaries fix their order, for the deep link.\<close>

definition keyA1 :: IssueData where
  "keyA1 = blankIssue\<lparr>Key := ''A-1'', Summary := ''a''\<rparr>"

definition keyA2 :: IssueData where
  "keyA2 = blankIssue\<lparr>Key := ''A-2'', Summary := ''b''\<rparr>"

definition keyA3 :: IssueData where
  "keyA3 = blankIssue\<lparr>Key := ''A-3'', Summary := ''c''\<rparr>"

text \<open>A field that holds two quotes and the separator.\<close>

definition quotedTitle :: string where
  "quotedTitle = ''fix '' @ [quoteByte] @ ''cat'' @ [quoteByte] @ '' '' @ csvSep @ '' bug''"

text \<open>
  Two trackers, whose state counts the requests served. The first has no field
  catalogue entry and answers every search with five issues, whatever page size was
  asked for; the second fails on the catalogue and answers a search with as many
  issues as were asked for, out of a thousand.
\<close>

definition oneBlob :: issueBlob where
  "oneBlob = [(''key'', JStr ''A-1'')]"

definition emptyCatalogue :: "nat fieldApi" where
  "emptyCatalogue st = (Inr [], Suc st)"

definition generousSearch :: "nat searchApi" where
  "generousSearch st jql fieldList startAt pageSize = (Inr (replicate 5 oneBlob, 100), Suc st)"

definition brokenCatalogue :: "nat fieldApi" where
  "brokenCatalogue st = (Inl RequestFailed, Suc st)"

definition exactSearch :: "nat searchApi" where
  "exactSearch st jql fieldList startAt pageSize =
     (Inr (replicate (nat pageSize) oneBlob, 1000), Suc st)"

section \<open>Facts about the status tables\<close>

lemma statusPriority_table:
  "statusPriority = map_of (zip statusOrder (map int [0..<length statusOrder]))"
  by (simp add: statusPriority_def statusOrder_def enumerate_eq_zip upt_rec fun_eq_iff)

lemmas string_eval =
  ToLower_def TrimSpace_def isSpace_def isASCII_def lowerByte_def asciiUpper_def asciiLower_def

lemmas status_eval =
  GetStatusPriority_def statusPriority_table statusOrder_def string_eval upt_rec

lemma GetStatusPriority_Done: "GetStatusPriority u ''Done'' = 0"
  by (simp add: status_eval)

lemma GetStatusPriority_In_Progress: "GetStatusPriority u ''In Progress'' = 3"
  by (simp add: status_eval)

lemma GetStatusPriority_done: "GetStatusPriority u ''done'' = 0"
  by (simp add: status_eval)

lemma GetStatusPriority_in_progress: "GetStatusPriority u ''in progress'' = 3"
  by (simp add: status_eval)

lemma GetStatusPriority_blank: "GetStatusPriority u [] = 999"
  by (simp add: status_eval)

lemma TrimSpace_padded: "TrimSpace u '' Blocked '' = ''Blocked''"
  by (simp add: string_eval)

section \<open>The insertion sort\<close>

lemma mset_insertBack: "mset (insertBack lt x ys) = add_mset x (mset ys)"
  by (induction ys) auto

lemma set_insertBack: "set (insertBack lt x ys) = insert x (set ys)"
  by (induction ys) auto

lemma descending_insertBack:
  fixes k :: "'a \<Rightarrow> 'k::linorder"
  assumes lt: "\<And>a b. lt a b \<longleftrightarrow> k a < k b"
    and desc: "sorted_wrt (\<lambda>a b. k b \<le> k a) ys"
  shows "sorted_wrt (\<lambda>a b. k b \<le> k a) (insertBack lt x ys)"
  using desc
proof (induction ys)
  case Nil
  show ?case by simp
next
  case (Cons y ys)
  show ?case
  proof (cases "lt x y")
    case True
    with Cons lt show ?thesis
      by (auto simp: set_insertBack)
  next
    case False
    with Cons lt show ?thesis
      by (auto simp: not_less)
  qed
qed

lemma mset_insertion_loop:
  "mset (foldl (\<lambda>acc x. insertBack lt x acc) acc0 xs) = mset acc0 + mset xs"
  by (induction xs arbitrary: acc0) (simp_all add: mset_insertBack)

lemma descending_insertion_loop:
  fixes k :: "'a \<Rightarrow> 'k::linorder"
  assumes lt: "\<And>a b. lt a b \<longleftrightarrow> k a < k b"
  shows "sorted_wrt (\<lambda>a b. k b \<le> k a) acc0 \<Longrightarrow>
         sorted_wrt (\<lambda>a b. k b \<le> k a) (foldl (\<lambda>acc x. insertBack lt x acc) acc0 xs)"
proof (induction xs arbitrary: acc0)
  case Nil
  then show ?case by simp
next
  case (Cons x xs)
  from descending_insertBack [of lt k acc0 x, OF lt Cons.prems]
  have "sorted_wrt (\<lambda>a b. k b \<le> k a) (insertBack lt x acc0)" .
  from Cons.IH [OF this] show ?case by simp
qed

lemma mset_insertionSort: "mset (insertionSort lt xs) = mset xs"
  by (simp add: insertionSort_def mset_insertion_loop)

lemma sorted_insertionSort:
  fixes k :: "'a \<Rightarrow> 'k::linorder"
  assumes lt: "\<And>a b. lt a b \<longleftrightarrow> k a < k b"
  shows "sorted_wrt (\<lambda>a b. k a \<le> k b) (insertionSort lt xs)"
proof -
  have "sorted_wrt (\<lambda>a b. k b \<le> k a) (foldl (\<lambda>acc x. insertBack lt x acc) [] xs)"
    by (rule descending_insertion_loop [OF lt]) simp
  then show ?thesis
    by (simp add: insertionSort_def sorted_wrt_rev)
qed

lemma insertion_loop_sorted_input:
  fixes k :: "'a \<Rightarrow> 'k::linorder"
  assumes lt: "\<And>a b. lt a b \<longleftrightarrow> k a < k b"
  shows "sorted_wrt (\<lambda>a b. k a \<le> k b) (rev acc0 @ xs) \<Longrightarrow>
         foldl (\<lambda>acc x. insertBack lt x acc) acc0 xs = rev xs @ acc0"
proof (induction xs arbitrary: acc0)
  case Nil
  show ?case by simp
next
  case (Cons x xs)
  have step: "insertBack lt x acc0 = x # acc0"
  proof (cases acc0)
    case Nil
    then show ?thesis by simp
  next
    case inner: (Cons y ys)
    with Cons.prems have "k y \<le> k x"
      by (auto simp: sorted_wrt_append)
    then have "\<not> lt x y"
      by (simp add: lt not_less)
    with inner show ?thesis by simp
  qed
  from Cons.prems have "sorted_wrt (\<lambda>a b. k a \<le> k b) (rev (x # acc0) @ xs)"
    by simp
  from Cons.IH [OF this] step show ?case by simp
qed

lemma insertionSort_sorted_input:
  fixes k :: "'a \<Rightarrow> 'k::linorder"
  assumes lt: "\<And>a b. lt a b \<longleftrightarrow> k a < k b"
    and srt: "sorted_wrt (\<lambda>a b. k a \<le> k b) xs"
  shows "insertionSort lt xs = xs"
  using insertion_loop_sorted_input [of lt k "[]" xs, OF lt] srt
  by (simp add: insertionSort_def)

section \<open>The first round of the pattern-defeating quicksort\<close>

text \<open>
  A slice that is sorted by the key is left as it is: \<open>choosePivot\<close> exchanges no
  indices on it, and the scan reaches its end.
\<close>

lemma scansToEnd_sorted:
  fixes k :: "'a \<Rightarrow> 'k::linorder"
  assumes lt: "\<And>a b. lt a b \<longleftrightarrow> k a < k b"
  shows "scansToEnd lt xs \<longleftrightarrow> sorted (map k xs)"
  by (induction xs rule: induct_list012) (auto simp: lt not_less intro: order_trans)

lemma order2_sorted:
  fixes k :: "'a \<Rightarrow> 'k::linorder"
  assumes lt: "\<And>a b. lt a b \<longleftrightarrow> k a < k b"
    and srt: "sorted (map k data)"
    and idx: "a \<le> b" "b < length data"
  shows "order2 lt data a b swaps = ((a, b), swaps)"
proof -
  from srt idx have "map k data ! a \<le> map k data ! b"
    by (intro sorted_nth_mono) simp_all
  with idx have "k (data ! a) \<le> k (data ! b)" by simp
  then show ?thesis
    by (simp add: order2_def lt not_less)
qed

lemma median_sorted:
  fixes k :: "'a \<Rightarrow> 'k::linorder"
  assumes lt: "\<And>a b. lt a b \<longleftrightarrow> k a < k b"
    and srt: "sorted (map k data)"
    and idx: "a \<le> b" "b \<le> c" "c < length data"
  shows "median lt data a b c swaps = (b, swaps)"
proof -
  from idx have ab: "b < length data" by simp
  show ?thesis
    by (simp add: median_def order2_sorted [OF lt srt idx(1) ab]
        order2_sorted [OF lt srt idx(2) idx(3)])
qed

lemma choosePivot_sorted:
  fixes k :: "'a \<Rightarrow> 'k::linorder"
  assumes lt: "\<And>a b. lt a b \<longleftrightarrow> k a < k b"
    and srt: "sorted (map k data)"
    and long: "12 < length data"
  shows "snd (choosePivot lt data) = increasingHint"
proof (cases "50 \<le> length data")
  case False
  have "median lt data (length data div 4 * 1) (length data div 4 * 2) (length data div 4 * 3) 0
      = (length data div 4 * 2, 0)"
    using long by (intro median_sorted [OF lt srt]) auto
  with False long show ?thesis
    by (simp add: choosePivot_def Let_def)
next
  case True
  let ?q = "length data div 4"
  from True have q: "12 \<le> ?q" by simp
  have len: "4 * ?q \<le> length data" by simp
  have i: "medianAdjacent lt data ?q 0 = (?q, 0)"
    unfolding medianAdjacent_def using q len by (intro median_sorted [OF lt srt]) auto
  have j: "medianAdjacent lt data (?q * 2) 0 = (?q * 2, 0)"
    unfolding medianAdjacent_def using q len by (intro median_sorted [OF lt srt]) auto
  have k: "medianAdjacent lt data (?q * 3) 0 = (?q * 3, 0)"
    unfolding medianAdjacent_def using q len by (intro median_sorted [OF lt srt]) auto
  have m: "median lt data ?q (?q * 2) (?q * 3) 0 = (?q * 2, 0)"
    using q len by (intro median_sorted [OF lt srt]) auto
  from True show ?thesis
    by (simp add: choosePivot_def Let_def i j k m)
qed

lemma sortSlice_sorted_input:
  fixes k :: "'a \<Rightarrow> 'k::linorder"
  assumes lt: "\<And>a b. lt a b \<longleftrightarrow> k a < k b"
    and srt: "sorted (map k data)"
  shows "sortSlice pdq lt data = data"
proof (cases "length data \<le> 12")
  case True
  from srt have "sorted_wrt (\<lambda>a b. k a \<le> k b) data"
    by (simp add: sorted_map)
  from insertionSort_sorted_input [OF lt this] True show ?thesis
    by (simp add: sortSlice_def)
next
  case False
  then have long: "12 < length data" by simp
  obtain pivot hint where ch: "choosePivot lt data = (pivot, hint)"
    by (cases "choosePivot lt data")
  with choosePivot_sorted [OF lt srt long] have "hint = increasingHint" by simp
  moreover from srt have "scansToEnd lt data"
    by (simp add: scansToEnd_sorted [OF lt])
  ultimately show ?thesis
    using False ch by (simp add: sortSlice_def)
qed

lemma mset_sortSlice:
  assumes "sortsLongSlices pdq lt"
  shows "mset (sortSlice pdq lt data) = mset data"
proof (cases "length data \<le> 12")
  case True
  then show ?thesis by (simp add: sortSlice_def mset_insertionSort)
next
  case False
  with assms have "mset (pdq lt data) = mset data"
    by (simp add: sortsLongSlices_def)
  with False show ?thesis
    by (auto simp: sortSlice_def Let_def split: prod.splits)
qed

lemma sorted_sortSlice:
  fixes k :: "'a \<Rightarrow> 'k::linorder"
  assumes lt: "\<And>a b. lt a b \<longleftrightarrow> k a < k b"
    and pdq: "sortsLongSlices pdq lt"
  shows "sorted (map k (sortSlice pdq lt data))"
proof (cases "length data \<le> 12")
  case True
  with sorted_insertionSort [of lt k data, OF lt] show ?thesis
    by (simp add: sortSlice_def sorted_map)
next
  case False
  with pdq have "sorted_wrt (\<lambda>a b. \<not> lt b a) (pdq lt data)"
    by (simp add: sortsLongSlices_def)
  then have rest: "sorted (map k (pdq lt data))"
    by (simp add: sorted_map lt not_less)
  have scan: "scansToEnd lt xs \<Longrightarrow> sorted (map k xs)" for xs
    by (simp add: scansToEnd_sorted [OF lt])
  from False rest show ?thesis
    by (auto simp: sortSlice_def Let_def split: prod.splits dest: scan)
qed

lemma insertionSort_sortsLongSlices:
  fixes k :: "'a \<Rightarrow> 'k::linorder"
  assumes lt: "\<And>a b. lt a b \<longleftrightarrow> k a < k b"
  shows "sortsLongSlices insertionSort lt"
  using sorted_insertionSort [of lt k, OF lt]
  by (simp add: sortsLongSlices_def mset_insertionSort lt not_less)

section \<open>Facts about the example parser\<close>

lemmas date_eval =
  ParseJiraDate_def formats_def RFC3339_def dateOnlyParse_def fixOffset_def isDigit_def
  digitVal_def daysIn_def isLeap_def daysFromCivil_def nanosPerDay_def

lemma ParseJiraDate_empty: "ParseJiraDate tparse [] = None"
  by (simp add: ParseJiraDate_def)

lemma dateOnlyParse_not_available: "ParseJiraDate dateOnlyParse ''N/A'' = None"
  by (simp add: date_eval)

section \<open>The comparison and the four keys\<close>

lemma issueLess_sortKey: "issueLess u a b \<longleftrightarrow> sortKey u a < sortKey u b"
  by (auto simp: issueLess_def sortKey_def targetEndKey_def Let_def less_prod_def less_le)

lemma keysAscending_sortKey: "keysAscending u a b \<longleftrightarrow> sortKey u a \<le> sortKey u b"
  by (auto simp: keysAscending_def sortKey_def less_eq_prod_def less_prod_def less_le)

lemma issueLess_keysAscending:
  "issueLess u a b \<longleftrightarrow> keysAscending u a b \<and> \<not> keysAscending u b a"
  by (auto simp: issueLess_sortKey keysAscending_sortKey)

lemma filterIssues_filter:
  "filterIssues tparse cfg issues =
     filter (\<lambda>r. \<not> droppedBySince tparse cfg r \<and> \<not> droppedByComment tparse cfg r)
       (List.map_filter (\<lambda>i. i) issues)"
  by (induction tparse cfg issues rule: filterIssues.induct)
     simp_all

lemma filterIssues_kept:
  "\<forall>r \<in> set rs. \<not> droppedBySince tparse cfg r \<and> \<not> droppedByComment tparse cfg r \<Longrightarrow>
   filterIssues tparse cfg (map Some rs) = rs"
  by (induction rs) simp_all

text \<open>
  Where the remainder of \<open>pdqsort_func\<close> keeps the library's contract, the output is
  sorted by the four keys and holds the filtered records. The insertion sort keeps
  that contract.
\<close>

lemma insertionSort_contract: "sortsLongSlices insertionSort (issueLess u)"
  by (rule insertionSort_sortsLongSlices [OF issueLess_sortKey])

lemma sorted_filterAndSortIssues:
  assumes "sortsLongSlices pdq (issueLess u)"
  shows "sorted_wrt (keysAscending u) (filterAndSortIssues u pdq tparse issues cfg)"
  using sorted_sortSlice
    [of "issueLess u" "sortKey u" pdq "filterIssues tparse cfg issues", OF issueLess_sortKey assms]
  by (simp add: filterAndSortIssues_def sorted_map keysAscending_sortKey [abs_def])

lemma mset_filterAndSortIssues:
  assumes "sortsLongSlices pdq (issueLess u)"
  shows "mset (filterAndSortIssues u pdq tparse issues cfg) = mset (filterIssues tparse cfg issues)"
  by (simp add: filterAndSortIssues_def mset_sortSlice [OF assms])

lemma set_filterAndSortIssues:
  assumes "sortsLongSlices pdq (issueLess u)"
  shows "set (filterAndSortIssues u pdq tparse issues cfg) = set (filterIssues tparse cfg issues)"
  using mset_filterAndSortIssues [OF assms, of tparse issues cfg] by (metis set_mset_mset)

lemma filterAndSortIssues_sorted_input:
  assumes "sorted (map (sortKey u) rs)"
    and "\<forall>r \<in> set rs. \<not> droppedBySince tparse cfg r \<and> \<not> droppedByComment tparse cfg r"
  shows "filterAndSortIssues u pdq tparse (map Some rs) cfg = rs"
  using sortSlice_sorted_input [of "issueLess u" "sortKey u" rs pdq, OF issueLess_sortKey assms(1)]
  by (simp add: filterAndSortIssues_def filterIssues_kept [OF assms(2)])


section \<open>The filter\<close>

lemma count_filterIssues:
  "count (mset (filterIssues tparse cfg issues)) r =
     (if \<not> droppedBySince tparse cfg r \<and> \<not> droppedByComment tparse cfg r
      then count (mset issues) (Some r) else 0)"
proof (induction issues)
  case Nil
  show ?case by simp
next
  case (Cons i rest)
  then show ?case by (cases i) auto
qed

lemma count_filterAndSortIssues:
  assumes "sortsLongSlices pdq (issueLess u)"
  shows "count (mset (filterAndSortIssues u pdq tparse issues cfg)) r =
     (if \<not> droppedBySince tparse cfg r \<and> \<not> droppedByComment tparse cfg r
      then count (mset issues) (Some r) else 0)"
  by (simp only: mset_filterAndSortIssues [OF assms] count_filterIssues)

lemma droppedBySince_iff:
  assumes "Since cfg = Some T" and "ParseJiraDate tparse ''N/A'' = None"
  shows "droppedBySince tparse cfg r \<longleftrightarrow>
         \<not> (\<exists>t. ParseJiraDate tparse (Updated r) = Some t \<and> T \<le> t)"
  using assms
  by (auto simp: droppedBySince_def Let_def ParseJiraDate_empty split: option.splits)

lemma droppedByComment_iff:
  assumes "NoCommentSince cfg = Some C"
  shows "droppedByComment tparse cfg r \<longleftrightarrow>
         IssueComment.Created (Comment r) \<noteq> [] \<and>
         (\<exists>d. ParseJiraDate tparse (IssueComment.Created (Comment r)) = Some d \<and> C < d)"
  using assms
  by (auto simp: droppedByComment_def split: option.splits)

lemma droppedByComment_unset: "NoCommentSince cfg = None \<Longrightarrow> \<not> droppedByComment tparse cfg r"
  by (simp add: droppedByComment_def)

lemma droppedBySince_unset: "Since cfg = None \<Longrightarrow> \<not> droppedBySince tparse cfg r"
  by (simp add: droppedBySince_def)


section \<open>Overdue issues and extracted records\<close>

lemma IsOverdue_done_resolved:
  "ToLower u (TrimSpace u statusName) = ''done'' \<or>
   ToLower u (TrimSpace u statusName) = ''resolved'' \<Longrightarrow>
   \<not> IsOverdue u tparse now statusName targetEnd"
  by (auto simp: IsOverdue_def Let_def)

lemma recordClosed_eval:
  "recordClosed =
   \<lparr>Key = ''A-9'', URL = ''https://jira.example.com/browse/A-9'',
    Summary = ''shipped'', StatusName = ''closed'', Assignee = ''N/A'',
    Priority = ''None'', Created = [], Updated = [], TargetEnd = ''2020-01-01'',
    ParentKey = ''A-9'', ParentSummary = ''shipped'',
    ParentURL = ''https://jira.example.com/browse/A-9'', Trending = ''overdue'',
    Emoji = glyphOffTrack, Comment = \<lparr>Url = [], Created = []\<rparr>\<rparr>"
  by (simp add: recordClosed_def IsOverdue_def ExtractIssueData_def Let_def string_eval
      noon20261101_def Truncate24h_def rawClosed_def statusCategories_def GetStatusEmoji_def date_eval)

lemma recordBlocked_eval:
  "recordBlocked =
   \<lparr>Key = ''A-8'', URL = ''https://jira.example.com/browse/A-8'',
    Summary = ''waiting for review'', StatusName = ''blocked'', Assignee = ''N/A'',
    Priority = ''None'', Created = [], Updated = [], TargetEnd = ''2020-01-01'',
    ParentKey = ''A-8'', ParentSummary = ''waiting for review'',
    ParentURL = ''https://jira.example.com/browse/A-8'', Trending = ''overdue'',
    Emoji = glyphOffTrack, Comment = \<lparr>Url = [], Created = []\<rparr>\<rparr>"
  by (simp add: recordBlocked_def IsOverdue_def ExtractIssueData_def Let_def string_eval
      noon20261101_def Truncate24h_def rawBlocked_def statusCategories_def GetStatusEmoji_def date_eval)

lemma recordStatusOverdue_eval:
  "recordStatusOverdue =
   \<lparr>Key = ''A-7'', URL = ''https://jira.example.com/browse/A-7'',
    Summary = ''late delivery'', StatusName = ''overdue'', Assignee = ''N/A'',
    Priority = ''None'', Created = [], Updated = [], TargetEnd = [],
    ParentKey = ''A-7'', ParentSummary = ''late delivery'',
    ParentURL = ''https://jira.example.com/browse/A-7'', Trending = ''overdue'',
    Emoji = glyphUnknown, Comment = \<lparr>Url = [], Created = []\<rparr>\<rparr>"
  by (simp add: recordStatusOverdue_def IsOverdue_def ExtractIssueData_def Let_def string_eval
      noon20261101_def Truncate24h_def rawStatusOverdue_def statusCategories_def GetStatusEmoji_def)

lemma IsOverdue_closed_example:
  "IsOverdue u dateOnlyParse noon20261101 ''closed'' ''2020-01-01''"
  by (simp add: IsOverdue_def Let_def string_eval noon20261101_def Truncate24h_def date_eval)

lemma ExtractIssueData_Trending:
  "Trending (ExtractIssueData u tparse now targetEndField issue serverURL parentKey parentSummary) =
     (let statusName =
            StatusName
              (ExtractIssueData u tparse now targetEndField issue serverURL parentKey parentSummary);
          targetEnd =
            TargetEnd
              (ExtractIssueData u tparse now targetEndField issue serverURL parentKey parentSummary)
      in if IsOverdue u tparse now statusName targetEnd then ''overdue''
         else if statusName = ''done'' \<or> statusName = ''closed'' \<or> statusName = ''resolved''
         then ''done''
         else if statusName = ''not started'' \<or> statusName = ''ready for work'' \<or>
                 statusName = ''vetting'' \<or> statusName = ''new''
         then ''not started''
         else statusName)"
  by (simp add: ExtractIssueData_def Let_def)

lemma ExtractIssueData_Emoji:
  "Emoji (ExtractIssueData u tparse now targetEndField issue serverURL parentKey parentSummary) =
     (let statusName =
            StatusName
              (ExtractIssueData u tparse now targetEndField issue serverURL parentKey parentSummary);
          targetEnd =
            TargetEnd
              (ExtractIssueData u tparse now targetEndField issue serverURL parentKey parentSummary)
      in if IsOverdue u tparse now statusName targetEnd then glyphOffTrack
         else GetStatusEmoji u statusName)"
  by (simp add: ExtractIssueData_def Let_def)

section \<open>Escaping and unescaping a query component\<close>

lemma unhex_upperhex_all: "\<forall>n \<in> set [0..<16]. unhex (upperhex ! n) = Some n"
  by (simp add: upt_rec unhex_def upperhex_def)

lemma unhex_upperhex: "n < 16 \<Longrightarrow> unhex (upperhex ! n) = Some n"
  using unhex_upperhex_all by simp

lemma char_of_nibbles: "char_of (16 * (of_char c div 16) + of_char c mod 16 :: nat) = c"
  by simp

lemma unreserved_not_special:
  "\<not> shouldEscape c \<Longrightarrow> c \<noteq> CHR ''%'' \<and> c \<noteq> CHR ''+''"
  by (auto simp: shouldEscape_def isAlnum_def)

lemma queryUnescape_escapeByte:
  "queryUnescape (escapeByte c @ rest) = map_option ((#) c) (queryUnescape rest)"
proof (cases "shouldEscape c")
  case False
  with unreserved_not_special [OF False] show ?thesis
    by (simp add: escapeByte_def)
next
  case True
  show ?thesis
  proof (cases "c = CHR '' ''")
    case True
    then show ?thesis by (simp add: escapeByte_def shouldEscape_def isAlnum_def)
  next
    case False
    have hi: "unhex (upperhex ! (of_char c div 16)) = Some (of_char c div 16)"
      by (rule unhex_upperhex) (simp add: less_mult_imp_div_less)
    have lo: "unhex (upperhex ! (of_char c mod 16)) = Some (of_char c mod 16)"
      by (rule unhex_upperhex) simp
    from True False show ?thesis
      by (simp add: escapeByte_def hi lo char_of_nibbles)
  qed
qed

lemma queryUnescape_QueryEscape: "queryUnescape (QueryEscape s) = Some s"
  by (induction s) (simp_all add: QueryEscape_def queryUnescape_escapeByte del: queryUnescape.simps(2))

lemma QueryEscape_jql: "QueryEscape ''jql'' = ''jql''"
  by (simp add: QueryEscape_def escapeByte_def shouldEscape_def isAlnum_def)

section \<open>Reading back an escaped field\<close>

lemma Contains_single: "Contains s [x] \<longleftrightarrow> x \<in> set s"
  by (induction s) auto

lemma readQuoted_doubled:
  "rest = [] \<or> hd rest \<noteq> quoteByte \<Longrightarrow>
   readQuoted (ReplaceAllByte s quoteByte [quoteByte, quoteByte] @ quoteByte # rest) = Some (s, rest)"
proof (induction s)
  case Nil
  then show ?case
    by (cases rest) (auto simp: ReplaceAllByte_def)
next
  case (Cons c s)
  then show ?case
    by (auto simp: ReplaceAllByte_def)
qed

lemma readPlain_plain:
  "\<not> Contains s sep \<Longrightarrow> newlineByte \<notin> set s \<Longrightarrow> quoteByte \<notin> set s \<Longrightarrow>
   readPlain sep s = Some (s, [])"
proof (induction s)
  case Nil
  show ?case by simp
next
  case (Cons c s)
  then show ?case by auto
qed

lemma csvReadField_plain:
  assumes "\<not> Contains s sep" and "newlineByte \<notin> set s" and "quoteByte \<notin> set s"
  shows "csvReadField sep s = Some (s, [])"
proof (cases s)
  case Nil
  then show ?thesis by (simp add: csvReadField_def)
next
  case (Cons c cs)
  with assms(3) have "c \<noteq> quoteByte" by auto
  moreover from readPlain_plain [OF assms] Cons have "readPlain sep (c # cs) = Some (c # cs, [])"
    by simp
  ultimately show ?thesis
    using Cons by (simp add: csvReadField_def)
qed

lemma csvReadField_escaped: "csvReadField csvSep (escapeCSVField s) = Some (s, [])"
proof (cases "Contains s csvSep \<or> Contains s [newlineByte] \<or> Contains s [quoteByte]")
  case True
  then have "escapeCSVField s = quoteByte # ReplaceAllByte s quoteByte [quoteByte, quoteByte] @ [quoteByte]"
    by (simp add: escapeCSVField_def)
  with readQuoted_doubled [of "[]" s] show ?thesis
    by (simp add: csvReadField_def atFieldEnd_def)
next
  case False
  then have plain: "\<not> Contains s csvSep" "newlineByte \<notin> set s" "quoteByte \<notin> set s"
    by (simp_all add: Contains_single)
  from False have "escapeCSVField s = s"
    by (simp add: escapeCSVField_def)
  with csvReadField_plain [OF plain] show ?thesis
    by simp
qed

lemma csvReadField_escaped_then_sep:
  assumes "Contains s csvSep \<or> Contains s [newlineByte] \<or> Contains s [quoteByte]"
  shows "csvReadField csvSep (escapeCSVField s @ csvSep @ following) = Some (s, csvSep @ following)"
proof -
  from assms have "escapeCSVField s @ csvSep @ following =
      quoteByte # ReplaceAllByte s quoteByte [quoteByte, quoteByte] @ quoteByte # (csvSep @ following)"
    by (simp add: escapeCSVField_def)
  moreover have "readQuoted (ReplaceAllByte s quoteByte [quoteByte, quoteByte] @ quoteByte # (csvSep @ following))
      = Some (s, csvSep @ following)"
    by (rule readQuoted_doubled) (simp add: csvSep_def quoteByte_def)
  ultimately show ?thesis
    by (simp add: csvReadField_def atFieldEnd_def)
qed

section \<open>Claim C1: a done issue and one in progress\<close>

text \<open>
  C1 (as the spec states it): of two records with the statuses \<open>Done\<close> and
  \<open>In Progress\<close> and no target date, the sorted output places the one in progress first.
  The code does the opposite: \<open>done\<close> is entry 0 of \<open>statusOrder\<close> and
  \<open>in progress\<close> entry 3, and the sort is ascending. The example below is the
  scenario, with no filter set.
\<close>

theorem C1_in_progress_first_counterexample:
  "filterAndSortIssues noUnicode insertionSort dateOnlyParse [Some issueInProgress, Some issueDone] noFilters
     = [issueDone, issueInProgress]
   \<and> filterAndSortIssues noUnicode insertionSort dateOnlyParse [Some issueInProgress, Some issueDone] noFilters
     \<noteq> [issueInProgress, issueDone]"
  by (simp add: filterAndSortIssues_def droppedBySince_def droppedByComment_def noFilters_def
      sortSlice_def insertionSort_def issueLess_def issueDone_def issueInProgress_def blankIssue_def
      GetStatusPriority_Done GetStatusPriority_In_Progress)

text \<open>
  C1 (amended): of two records with the statuses \<open>Done\<close> and \<open>In Progress\<close>, whatever
  their other fields and whichever comes first in the input, the output of
  \<open>filterAndSortIssues\<close> with no filter set places the \<open>Done\<close> record first (priority 0)
  and the \<open>In Progress\<close> record second (priority 3).
\<close>

theorem C1_done_sorts_before_in_progress:
  "filterAndSortIssues u pdq tparse
     [Some (p\<lparr>StatusName := ''In Progress''\<rparr>), Some (d\<lparr>StatusName := ''Done''\<rparr>)]
     (cfg\<lparr>Since := None, NoCommentSince := None\<rparr>)
     = [d\<lparr>StatusName := ''Done''\<rparr>, p\<lparr>StatusName := ''In Progress''\<rparr>]
   \<and> filterAndSortIssues u pdq tparse
     [Some (d\<lparr>StatusName := ''Done''\<rparr>), Some (p\<lparr>StatusName := ''In Progress''\<rparr>)]
     (cfg\<lparr>Since := None, NoCommentSince := None\<rparr>)
     = [d\<lparr>StatusName := ''Done''\<rparr>, p\<lparr>StatusName := ''In Progress''\<rparr>]
   \<and> GetStatusPriority u ''Done'' = 0 \<and> GetStatusPriority u ''In Progress'' = 3"
  by (simp add: filterAndSortIssues_def droppedBySince_def droppedByComment_def
      sortSlice_def insertionSort_def issueLess_def GetStatusPriority_Done GetStatusPriority_In_Progress)

section \<open>Claim C2: done issues are never overdue\<close>

text \<open>
  C2: for every status of the done family (\<open>done\<close>, \<open>closed\<close>, \<open>resolved\<close>) and every
  target date, \<open>IsOverdue\<close> is false. \<open>IsOverdue\<close> tests \<open>done\<close> and
  \<open>resolved\<close> only, where \<open>statusCategories\<close> and the \<open>trending\<close> switch of
  \<open>ExtractIssueData\<close> count \<open>closed\<close> as done too. A closed issue whose target date
  has passed is overdue for the code, and its record is marked so.
\<close>

theorem C2_closed_issue_is_overdue:
  "IsOverdue noUnicode dateOnlyParse noon20261101 ''closed'' ''2020-01-01''
   \<and> \<not> IsOverdue noUnicode dateOnlyParse noon20261101 ''done'' ''2020-01-01''
   \<and> \<not> IsOverdue noUnicode dateOnlyParse noon20261101 ''resolved'' ''2020-01-01''
   \<and> map_of statusCategories ''closed'' = map_of statusCategories ''done''
   \<and> StatusName recordClosed = ''closed''
   \<and> Trending recordClosed = ''overdue''
   \<and> Emoji recordClosed = glyphOffTrack"
proof -
  have "\<not> IsOverdue noUnicode dateOnlyParse noon20261101 ''done'' ''2020-01-01''"
    and "\<not> IsOverdue noUnicode dateOnlyParse noon20261101 ''resolved'' ''2020-01-01''"
    by (rule IsOverdue_done_resolved, simp add: string_eval)+
  moreover have "map_of statusCategories ''closed'' = map_of statusCategories ''done''"
    by (simp add: statusCategories_def)
  ultimately show ?thesis
    by (simp add: recordClosed_eval IsOverdue_closed_example)
qed

section \<open>Claim C3: the four sort keys\<close>

text \<open>
  C3: any two records of the output stand in the order of the four keys, ties falling
  through: the status priority, then the target date with the empty string replaced by
  \<open>9999-99-99\<close>, then the raw \<open>updated\<close> string, then the summary. The output is
  sorted by \<open>keysAscending\<close>, it holds exactly the records that passed the filter, and
  the code's comparison is the strict part of \<open>keysAscending\<close>. The one assumption is
  the library's: that \<open>sort.Slice\<close> sorts, also where it goes beyond what is modelled
  of it.
\<close>

theorem C3_sorted_by_four_keys:
  assumes "sortsLongSlices pdq (issueLess u)"
  shows "sorted_wrt (keysAscending u) (filterAndSortIssues u pdq tparse issues cfg)
   \<and> mset (filterAndSortIssues u pdq tparse issues cfg) = mset (filterIssues tparse cfg issues)
   \<and> (issueLess u a b \<longleftrightarrow> keysAscending u a b \<and> \<not> keysAscending u b a)"
  using sorted_filterAndSortIssues [OF assms, of tparse issues cfg]
    mset_filterAndSortIssues [OF assms, of tparse issues cfg] issueLess_keysAscending [of u a b]
  by blast

lemma sort_examples:
  "filterAndSortIssues u pdq dateOnlyParse
     [Some issueA, Some issueB, None, Some issueC, Some issueD, Some issueE] noFilters
   = [issueC, issueD, issueE, issueB, issueA]"
  by (simp add: filterAndSortIssues_def droppedBySince_def droppedByComment_def noFilters_def
      sortSlice_def insertionSort_def issueLess_def issueA_def issueB_def issueC_def issueD_def issueE_def
      blankIssue_def GetStatusPriority_done GetStatusPriority_in_progress)

theorem C3_sorted_by_four_keys_witness:
  "sortsLongSlices insertionSort (issueLess noUnicode)
   \<and> sorted_wrt (keysAscending noUnicode) [issueC, issueD, issueE, issueB, issueA]
   \<and> filterAndSortIssues noUnicode insertionSort dateOnlyParse
       [Some issueA, Some issueB, None, Some issueC, Some issueD, Some issueE] noFilters
     = [issueC, issueD, issueE, issueB, issueA]"
proof -
  have contract: "sortsLongSlices insertionSort (issueLess noUnicode)"
    by (rule insertionSort_contract)
  from C3_sorted_by_four_keys
    [OF contract, of dateOnlyParse
      "[Some issueA, Some issueB, None, Some issueC, Some issueD, Some issueE]"
      noFilters issueE issueB]
  have "sorted_wrt (keysAscending noUnicode) [issueC, issueD, issueE, issueB, issueA]"
    by (simp only: sort_examples)
  with contract sort_examples show ?thesis
    by blast
qed

section \<open>Claim C4: the overdue override\<close>

text \<open>
  C4 (as the spec states it): a record whose \<open>Trending\<close> is \<open>overdue\<close> has the
  off-track glyph and was overdue when it was built. A tracker status that is itself
  named \<open>Overdue\<close> falls to the default branch of the switch, which copies the status
  name into \<open>Trending\<close>: the record below has no target date, is not overdue, and
  carries the glyph of an unknown status.
\<close>

theorem C4_status_named_overdue_counterexample:
  "Trending recordStatusOverdue = ''overdue''
   \<and> Emoji recordStatusOverdue = glyphUnknown
   \<and> glyphUnknown \<noteq> glyphOffTrack
   \<and> \<not> IsOverdue noUnicode dateOnlyParse noon20261101
        (StatusName recordStatusOverdue) (TargetEnd recordStatusOverdue)"
  by (simp add: recordStatusOverdue_eval IsOverdue_def glyphUnknown_def glyphOffTrack_def)

text \<open>
  C4 (amended): for every record that \<open>ExtractIssueData\<close> builds, an overdue issue gets
  the trending \<open>overdue\<close> and the off-track glyph, whatever its status; and if
  \<open>Trending\<close> is \<open>overdue\<close> and the status name is not itself \<open>overdue\<close>, the glyph
  is the off-track one and \<open>IsOverdue\<close> held of the record's status name and target
  date.
\<close>

theorem C4_overdue_override:
  assumes "r = ExtractIssueData u tparse now targetEndField issue serverURL parentKey parentSummary"
  shows "(IsOverdue u tparse now (StatusName r) (TargetEnd r)
            \<longrightarrow> Trending r = ''overdue'' \<and> Emoji r = glyphOffTrack)
       \<and> (Trending r = ''overdue'' \<and> StatusName r \<noteq> ''overdue''
            \<longrightarrow> Emoji r = glyphOffTrack \<and> IsOverdue u tparse now (StatusName r) (TargetEnd r))"
proof -
  have trending: "Trending r =
      (if IsOverdue u tparse now (StatusName r) (TargetEnd r) then ''overdue''
       else if StatusName r = ''done'' \<or> StatusName r = ''closed'' \<or> StatusName r = ''resolved''
       then ''done''
       else if StatusName r = ''not started'' \<or> StatusName r = ''ready for work'' \<or>
               StatusName r = ''vetting'' \<or> StatusName r = ''new''
       then ''not started''
       else StatusName r)"
    unfolding assms
    by (simp only: Let_def ExtractIssueData_Trending
        [of u tparse now targetEndField issue serverURL parentKey parentSummary])
  have emoji: "Emoji r =
      (if IsOverdue u tparse now (StatusName r) (TargetEnd r) then glyphOffTrack
       else GetStatusEmoji u (StatusName r))"
    unfolding assms
    by (simp only: Let_def ExtractIssueData_Emoji
        [of u tparse now targetEndField issue serverURL parentKey parentSummary])
  show ?thesis
    by (auto simp: trending emoji split: if_splits)
qed

theorem C4_overdue_override_witness:
  "recordBlocked =
     ExtractIssueData noUnicode dateOnlyParse noon20261101 ''customfield_10010'' rawBlocked
       ''https://jira.example.com'' [] []
   \<and> StatusName recordBlocked = ''blocked''
   \<and> TargetEnd recordBlocked = ''2020-01-01''
   \<and> Trending recordBlocked = ''overdue''
   \<and> Emoji recordBlocked = glyphOffTrack
   \<and> IsOverdue noUnicode dateOnlyParse noon20261101 (StatusName recordBlocked) (TargetEnd recordBlocked)"
proof -
  have fields: "StatusName recordBlocked = ''blocked''" "TargetEnd recordBlocked = ''2020-01-01''"
    "Trending recordBlocked = ''overdue''" "StatusName recordBlocked \<noteq> ''overdue''"
    by (simp_all add: recordBlocked_eval)
  from C4_overdue_override [OF recordBlocked_def] fields
  have "Emoji recordBlocked = glyphOffTrack \<and>
      IsOverdue noUnicode dateOnlyParse noon20261101 (StatusName recordBlocked) (TargetEnd recordBlocked)"
    by blast
  with fields recordBlocked_def show ?thesis
    by blast
qed

section \<open>Claim C5: the since filter\<close>

text \<open>
  C5: with \<open>since\<close> set to the instant \<open>T\<close>, a record is in the output as often as it is
  in the input if its \<open>updated\<close> field parses to an instant that is not before \<open>T\<close>
  (exactly \<open>T\<close> included), and not at all otherwise: not when the field is empty, not when
  it does not parse, not when it parses to an instant before \<open>T\<close>. The filters combine:
  the first conjunct states it with the other filter in place, the second with the other
  filter unset, where \<open>since\<close> alone decides. \<open>N/A\<close>, which the code drops without parsing
  it, is assumed to be no date, as it is for \<open>time.Parse\<close>, and \<open>sort.Slice\<close> is
  assumed to return a permutation of the slice it is given.
\<close>

theorem C5_since_filter:
  assumes "Since cfg = Some T" and "ParseJiraDate tparse ''N/A'' = None"
    and "sortsLongSlices pdq (issueLess u)"
  shows "count (mset (filterAndSortIssues u pdq tparse issues cfg)) r =
           (if (\<exists>t. ParseJiraDate tparse (Updated r) = Some t \<and> T \<le> t) \<and>
               \<not> droppedByComment tparse cfg r
            then count (mset issues) (Some r) else 0)
         \<and> (NoCommentSince cfg = None \<longrightarrow>
              count (mset (filterAndSortIssues u pdq tparse issues cfg)) r =
                (if \<exists>t. ParseJiraDate tparse (Updated r) = Some t \<and> T \<le> t
                 then count (mset issues) (Some r) else 0))
         \<and> ParseJiraDate tparse [] = None"
  using droppedBySince_iff [OF assms(1,2), of r] droppedByComment_unset [of cfg tparse r]
  by (simp add: count_filterAndSortIssues [OF assms(3)] ParseJiraDate_empty)

lemma since_examples:
  "filterAndSortIssues u pdq dateOnlyParse
     [Some updatedAfter, Some updatedBefore, Some updatedExactly, Some updatedNever,
      Some updatedUnparsable] sinceNewYear
   = [updatedExactly, updatedAfter]"
  by (simp add: filterAndSortIssues_def droppedBySince_def droppedByComment_def noFilters_def
      sinceNewYear_def newYear2024_def
      sortSlice_def insertionSort_def issueLess_def updatedAfter_def updatedBefore_def updatedExactly_def
      updatedNever_def updatedUnparsable_def
      blankIssue_def GetStatusPriority_blank date_eval)

theorem C5_since_filter_witness:
  "Since sinceNewYear = Some newYear2024
   \<and> ParseJiraDate dateOnlyParse ''N/A'' = None
   \<and> ParseJiraDate dateOnlyParse (Updated updatedExactly) = Some newYear2024
   \<and> count (mset (filterAndSortIssues noUnicode insertionSort dateOnlyParse
        [Some updatedAfter, Some updatedBefore, Some updatedExactly, Some updatedNever,
         Some updatedUnparsable] sinceNewYear)) updatedExactly = 1
   \<and> filterAndSortIssues noUnicode insertionSort dateOnlyParse
        [Some updatedAfter, Some updatedBefore, Some updatedExactly, Some updatedNever,
         Some updatedUnparsable] sinceNewYear
      = [updatedExactly, updatedAfter]"
proof -
  have since: "Since sinceNewYear = Some newYear2024"
    by (simp add: sinceNewYear_def noFilters_def)
  have parsed: "ParseJiraDate dateOnlyParse (Updated updatedExactly) = Some newYear2024"
    by (simp add: updatedExactly_def blankIssue_def newYear2024_def date_eval)
  have other: "NoCommentSince sinceNewYear = None"
    by (simp add: sinceNewYear_def noFilters_def)
  have distinct: "updatedExactly \<noteq> updatedAfter" "updatedExactly \<noteq> updatedBefore"
    "updatedExactly \<noteq> updatedNever" "updatedExactly \<noteq> updatedUnparsable"
    by (simp_all add: updatedExactly_def updatedAfter_def updatedBefore_def updatedNever_def
        updatedUnparsable_def blankIssue_def)
  from C5_since_filter [OF since dateOnlyParse_not_available insertionSort_contract,
      of noUnicode "[Some updatedAfter, Some updatedBefore, Some updatedExactly, Some updatedNever,
           Some updatedUnparsable]" updatedExactly]
  have "count (mset (filterAndSortIssues noUnicode insertionSort dateOnlyParse
        [Some updatedAfter, Some updatedBefore, Some updatedExactly, Some updatedNever,
         Some updatedUnparsable] sinceNewYear)) updatedExactly = 1"
    using other parsed distinct by simp
  with since parsed dateOnlyParse_not_available since_examples show ?thesis
    by blast
qed

section \<open>Claim C6: the noCommentSince filter\<close>

text \<open>
  C6: with \<open>noCommentSince\<close> set to the instant \<open>C\<close>, a record is dropped if and only
  if its \<open>comment.created\<close> field is not empty and parses to an instant strictly after
  \<open>C\<close>; a record with no comment, or with a comment date that does not parse, is kept
  as often as it is in the input. The first conjunct states it with the \<open>since\<close> filter
  in place, the second with \<open>since\<close> unset, where \<open>noCommentSince\<close> alone decides.
  \<open>sort.Slice\<close> is assumed to return a permutation of the slice it is given.
\<close>

theorem C6_no_comment_since_filter:
  assumes "NoCommentSince cfg = Some C"
    and "sortsLongSlices pdq (issueLess u)"
  shows "count (mset (filterAndSortIssues u pdq tparse issues cfg)) r =
           (if IssueComment.Created (Comment r) \<noteq> [] \<and>
               (\<exists>d. ParseJiraDate tparse (IssueComment.Created (Comment r)) = Some d \<and> C < d)
               \<or> droppedBySince tparse cfg r
            then 0 else count (mset issues) (Some r))
         \<and> (Since cfg = None \<longrightarrow>
              count (mset (filterAndSortIssues u pdq tparse issues cfg)) r =
                (if IssueComment.Created (Comment r) \<noteq> [] \<and>
                    (\<exists>d. ParseJiraDate tparse (IssueComment.Created (Comment r)) = Some d \<and> C < d)
                 then 0 else count (mset issues) (Some r)))"
proof -
  let ?recent = "IssueComment.Created (Comment r) \<noteq> [] \<and>
     (\<exists>d. ParseJiraDate tparse (IssueComment.Created (Comment r)) = Some d \<and> C < d)"
  have dropped: "droppedByComment tparse cfg r \<longleftrightarrow> ?recent"
    by (rule droppedByComment_iff [OF assms(1)])
  have general: "count (mset (filterAndSortIssues u pdq tparse issues cfg)) r =
      (if ?recent \<or> droppedBySince tparse cfg r then 0 else count (mset issues) (Some r))"
    unfolding count_filterAndSortIssues [OF assms(2)] dropped by auto
  have special: "count (mset (filterAndSortIssues u pdq tparse issues cfg)) r =
      (if ?recent then 0 else count (mset issues) (Some r))" if "Since cfg = None"
    unfolding general using droppedBySince_unset [OF that, of tparse r] by simp
  from general special show ?thesis by blast
qed

lemma quiet_examples:
  "filterAndSortIssues u pdq dateOnlyParse
     [Some commentedUnparsable, Some commentedAfter, Some commentedNever, Some commentedExactly]
     quietSinceNewYear
   = [commentedExactly, commentedNever, commentedUnparsable]"
  by (simp add: filterAndSortIssues_def droppedBySince_def droppedByComment_def noFilters_def
      quietSinceNewYear_def newYear2024_def
      sortSlice_def insertionSort_def issueLess_def commentedAfter_def commentedExactly_def commentedNever_def
      commentedUnparsable_def
      blankIssue_def GetStatusPriority_blank date_eval)

theorem C6_no_comment_since_filter_witness:
  "NoCommentSince quietSinceNewYear = Some newYear2024
   \<and> count (mset (filterAndSortIssues noUnicode insertionSort dateOnlyParse
        [Some commentedUnparsable, Some commentedAfter, Some commentedNever,
         Some commentedExactly] quietSinceNewYear)) commentedAfter = 0
   \<and> filterAndSortIssues noUnicode insertionSort dateOnlyParse
        [Some commentedUnparsable, Some commentedAfter, Some commentedNever,
         Some commentedExactly] quietSinceNewYear
      = [commentedExactly, commentedNever, commentedUnparsable]"
proof -
  have quiet: "NoCommentSince quietSinceNewYear = Some newYear2024"
    by (simp add: quietSinceNewYear_def noFilters_def)
  have recent: "IssueComment.Created (Comment commentedAfter) \<noteq> [] \<and>
      (\<exists>d. ParseJiraDate dateOnlyParse (IssueComment.Created (Comment commentedAfter)) = Some d
         \<and> newYear2024 < d)"
    by (simp add: commentedAfter_def blankIssue_def newYear2024_def date_eval)
  from C6_no_comment_since_filter [OF quiet insertionSort_contract,
      of noUnicode dateOnlyParse "[Some commentedUnparsable, Some commentedAfter, Some commentedNever,
         Some commentedExactly]" commentedAfter]
  have "count (mset (filterAndSortIssues noUnicode insertionSort dateOnlyParse
        [Some commentedUnparsable, Some commentedAfter, Some commentedNever,
         Some commentedExactly] quietSinceNewYear)) commentedAfter = 0"
    using recent by simp
  with quiet quiet_examples show ?thesis
    by blast
qed

section \<open>Claim C7: the deep link\<close>

text \<open>
  C7: the deep link is the empty string when no record passes the filter; otherwise it
  is the server's address, \<open>/issues/?jql=\<close> and an escaped query that decodes to exactly
  \<open>key in (k1, k2, ..., kn) order by assignee ASC\<close>, the keys being those of the filtered
  records in their sorted order.
\<close>

theorem C7_deep_link:
  "RenderURLReport u pdq tparse serverURL issues cfg =
     (if filterAndSortIssues u pdq tparse issues cfg = [] then []
      else TrimSuffix serverURL ''/'' @ ''/issues/?jql='' @
           QueryEscape (''key in ('' @ Join (map Key (filterAndSortIssues u pdq tparse issues cfg)) '', ''
                        @ '') order by assignee ASC''))
   \<and> queryUnescape
        (QueryEscape (''key in ('' @ Join (map Key (filterAndSortIssues u pdq tparse issues cfg)) '', ''
                      @ '') order by assignee ASC''))
     = Some (''key in ('' @ Join (map Key (filterAndSortIssues u pdq tparse issues cfg)) '', ''
             @ '') order by assignee ASC'')"
  by (simp add: RenderURLReport_def Let_def encodeValue_def QueryEscape_jql
      queryUnescape_QueryEscape)

lemma key_examples:
  "filterAndSortIssues u pdq dateOnlyParse [Some keyA3, Some keyA1, Some keyA2] noFilters
     = [keyA1, keyA2, keyA3]"
  by (simp add: filterAndSortIssues_def droppedBySince_def droppedByComment_def noFilters_def
      sortSlice_def insertionSort_def issueLess_def keyA1_def keyA2_def keyA3_def blankIssue_def
      GetStatusPriority_blank)

lemma jql_example:
  "QueryEscape ''key in (A-1, A-2, A-3) order by assignee ASC''
     = ''key+in+%28A-1%2C+A-2%2C+A-3%29+order+by+assignee+ASC''"
  by (simp add: QueryEscape_def escapeByte_def shouldEscape_def isAlnum_def upperhex_def)

lemma base_example: "TrimSuffix ''https://jira.example.com/'' ''/'' = ''https://jira.example.com''"
  by (simp add: TrimSuffix_def suffix_to_prefix)

theorem C7_deep_link_witness:
  "RenderURLReport noUnicode insertionSort dateOnlyParse ''https://jira.example.com/''
       [Some keyA3, Some keyA1, Some keyA2] noFilters
     = ''https://jira.example.com/issues/?jql=key+in+%28A-1%2C+A-2%2C+A-3%29+order+by+assignee+ASC''
   \<and> queryUnescape ''key+in+%28A-1%2C+A-2%2C+A-3%29+order+by+assignee+ASC''
     = Some ''key in (A-1, A-2, A-3) order by assignee ASC''
   \<and> RenderURLReport noUnicode insertionSort dateOnlyParse ''https://jira.example.com/'' [] noFilters = []"
proof -
  have keys: "map Key [keyA1, keyA2, keyA3] = [''A-1'', ''A-2'', ''A-3'']"
    by (simp add: keyA1_def keyA2_def keyA3_def blankIssue_def)
  have jql: "''key in ('' @ Join [''A-1'', ''A-2'', ''A-3''] '', '' @ '') order by assignee ASC''
      = ''key in (A-1, A-2, A-3) order by assignee ASC''"
    by simp
  have none: "filterAndSortIssues noUnicode insertionSort dateOnlyParse [] noFilters = []"
    by (simp add: filterAndSortIssues_def sortSlice_def insertionSort_def)
  have "RenderURLReport noUnicode insertionSort dateOnlyParse ''https://jira.example.com/''
       [Some keyA3, Some keyA1, Some keyA2] noFilters
     = ''https://jira.example.com'' @ ''/issues/?jql='' @
       ''key+in+%28A-1%2C+A-2%2C+A-3%29+order+by+assignee+ASC''
   \<and> queryUnescape ''key+in+%28A-1%2C+A-2%2C+A-3%29+order+by+assignee+ASC''
     = Some ''key in (A-1, A-2, A-3) order by assignee ASC''"
    using C7_deep_link [of noUnicode insertionSort dateOnlyParse "''https://jira.example.com/''"
      "[Some keyA3, Some keyA1, Some keyA2]" noFilters]
    unfolding key_examples keys jql jql_example base_example
    by simp
  moreover have "RenderURLReport noUnicode insertionSort dateOnlyParse ''https://jira.example.com/'' [] noFilters = []"
    by (simp add: RenderURLReport_def none)
  ultimately show ?thesis by simp
qed

section \<open>Claim C8: CSV fields\<close>

text \<open>
  C8: a field that holds the separator, a newline or a quote is wrapped in quotes with
  its quotes doubled, and is read back unchanged also when the separator and more input
  follow it; and the reader returns every escaped field, wrapped or not, as the one field
  it was.
\<close>

theorem C8_csv_field_round_trip:
  "(Contains s csvSep \<or> Contains s [newlineByte] \<or> Contains s [quoteByte] \<longrightarrow>
      escapeCSVField s = [quoteByte] @ ReplaceAllByte s quoteByte [quoteByte, quoteByte] @ [quoteByte]
      \<and> csvReadField csvSep (escapeCSVField s @ csvSep @ following) = Some (s, csvSep @ following))
   \<and> csvReadRecord csvSep (escapeCSVField s) = Some [s]"
  using csvReadField_escaped [of s] csvReadField_escaped_then_sep [of s following]
  by (simp add: csvReadRecord_def escapeCSVField_def)

lemma quotedTitle_escaped:
  "escapeCSVField quotedTitle =
     [quoteByte] @ ''fix '' @ [quoteByte, quoteByte] @ ''cat'' @ [quoteByte, quoteByte] @ '' ''
       @ csvSep @ '' bug'' @ [quoteByte]"
  by (simp add: escapeCSVField_def quotedTitle_def ReplaceAllByte_def quoteByte_def
      newlineByte_def csvSep_def)

theorem C8_csv_field_round_trip_witness:
  "Contains quotedTitle csvSep
   \<and> Contains quotedTitle [quoteByte]
   \<and> escapeCSVField quotedTitle =
       [quoteByte] @ ''fix '' @ [quoteByte, quoteByte] @ ''cat'' @ [quoteByte, quoteByte] @ '' ''
         @ csvSep @ '' bug'' @ [quoteByte]
   \<and> csvReadRecord csvSep (escapeCSVField quotedTitle) = Some [quotedTitle]
   \<and> csvReadField csvSep (escapeCSVField quotedTitle @ csvSep @ ''N/A'')
       = Some (quotedTitle, csvSep @ ''N/A'')"
proof -
  have sep: "Contains quotedTitle csvSep" and quote: "Contains quotedTitle [quoteByte]"
    by (simp_all add: quotedTitle_def quoteByte_def csvSep_def)
  from C8_csv_field_round_trip [of quotedTitle "''N/A''"] sep
  have "csvReadRecord csvSep (escapeCSVField quotedTitle) = Some [quotedTitle]"
    and "csvReadField csvSep (escapeCSVField quotedTitle @ csvSep @ ''N/A'')
       = Some (quotedTitle, csvSep @ ''N/A'')"
    by blast+
  with sep quote quotedTitle_escaped show ?thesis by blast
qed

section \<open>Claim C9: selecting twice\<close>

text \<open>
  C9: filtering and sorting the output of \<open>filterAndSortIssues\<close> again, under the same
  configuration, returns that output unchanged, for every input: records that agree in
  all four keys keep the order the first pass gave them, whatever that order is. The
  first pass is assumed to sort, as the library promises. The second pass then finds a
  sorted slice: the insertion sort moves nothing in one of at most twelve records, and
  on a longer one \<open>choosePivot_func\<close> exchanges no indices and the first loop of
  \<open>partialInsertionSort_func\<close> runs to the end, so that \<open>pdqsort_func\<close> returns
  before it partitions. The thirteen records of the witness have their ties in an order
  that no stable sort would give.
\<close>

theorem C9_select_idempotent:
  assumes "sortsLongSlices pdq (issueLess u)"
  shows "filterAndSortIssues u pdq tparse
           (map Some (filterAndSortIssues u pdq tparse issues cfg)) cfg
         = filterAndSortIssues u pdq tparse issues cfg"
proof -
  let ?out = "filterAndSortIssues u pdq tparse issues cfg"
  have kept: "\<forall>r \<in> set ?out. \<not> droppedBySince tparse cfg r \<and> \<not> droppedByComment tparse cfg r"
    by (simp add: set_filterAndSortIssues [OF assms] filterIssues_filter)
  have "sorted (map (sortKey u) ?out)"
    using sorted_filterAndSortIssues [OF assms, of tparse issues cfg]
    by (simp add: sorted_map keysAscending_sortKey [abs_def])
  from filterAndSortIssues_sorted_input [OF this kept] show ?thesis .
qed

lemma tie_examples:
  "filterAndSortIssues u pdq dateOnlyParse
     [Some issueF, Some issueA, Some issueE, Some issueC] noFilters
   = [issueC, issueF, issueE, issueA]"
  by (simp add: filterAndSortIssues_def droppedBySince_def droppedByComment_def noFilters_def
      sortSlice_def insertionSort_def issueLess_def issueA_def issueF_def issueC_def issueE_def
      blankIssue_def GetStatusPriority_done GetStatusPriority_in_progress)

lemma tiedThirteen_sorted: "sorted (map (sortKey u) tiedThirteen)"
  by (simp add: tiedThirteen_def numbered_def sortKey_def targetEndKey_def blankIssue_def
      GetStatusPriority_blank)

lemma tiedThirteen_untouched:
  "filterAndSortIssues u pdq tparse (map Some tiedThirteen) noFilters = tiedThirteen"
  by (rule filterAndSortIssues_sorted_input [OF tiedThirteen_sorted])
     (simp add: droppedBySince_def droppedByComment_def noFilters_def)

theorem C9_select_idempotent_witness:
  "sortsLongSlices insertionSort (issueLess noUnicode)
   \<and> sortKey noUnicode issueF = sortKey noUnicode issueE
   \<and> issueF \<noteq> issueE
   \<and> filterAndSortIssues noUnicode insertionSort dateOnlyParse
       [Some issueF, Some issueA, Some issueE, Some issueC] noFilters
     = [issueC, issueF, issueE, issueA]
   \<and> filterAndSortIssues noUnicode insertionSort dateOnlyParse
       [Some issueC, Some issueF, Some issueE, Some issueA] noFilters
     = [issueC, issueF, issueE, issueA]
   \<and> length tiedThirteen = 13
   \<and> filterAndSortIssues noUnicode insertionSort dateOnlyParse
       (map Some (filterAndSortIssues noUnicode insertionSort dateOnlyParse
          (map Some tiedThirteen) noFilters)) noFilters
     = tiedThirteen"
proof -
  have contract: "sortsLongSlices insertionSort (issueLess noUnicode)"
    by (rule insertionSort_contract)
  have tie: "sortKey noUnicode issueF = sortKey noUnicode issueE" "issueF \<noteq> issueE"
    by (simp_all add: sortKey_def targetEndKey_def issueF_def issueE_def blankIssue_def)
  from C9_select_idempotent
    [OF contract, of dateOnlyParse "[Some issueF, Some issueA, Some issueE, Some issueC]" noFilters]
  have four: "filterAndSortIssues noUnicode insertionSort dateOnlyParse
       [Some issueC, Some issueF, Some issueE, Some issueA] noFilters
     = [issueC, issueF, issueE, issueA]"
    by (simp add: tie_examples)
  have thirteen: "length tiedThirteen = 13"
    by (simp add: tiedThirteen_def)
  from C9_select_idempotent [OF contract, of dateOnlyParse "map Some tiedThirteen" noFilters]
  have again: "filterAndSortIssues noUnicode insertionSort dateOnlyParse
       (map Some (filterAndSortIssues noUnicode insertionSort dateOnlyParse
          (map Some tiedThirteen) noFilters)) noFilters
     = tiedThirteen"
    by (simp only: tiedThirteen_untouched)
  from contract tie tie_examples four thirteen again show ?thesis
    by blast
qed

section \<open>Claim C10: the size of a search result\<close>

text \<open>
  C10: for \<open>maxResults\<close> of at least one, the slice that \<open>SearchIssues\<close> returns has at
  most \<open>maxResults\<close> elements, whatever the tracker answers: the loop always ends
  (\<open>searchLoop\<close> is total), and what it gathered beyond \<open>maxResults\<close> is cut off.
\<close>

theorem C10_search_at_most_maxResults:
  assumes "1 \<le> maxResults"
  shows "int (length (returnedIssues (fst (fst
           (SearchIssues fieldApi searchApi targetEndField jql maxResults st))))) \<le> maxResults"
  using assms
  by (auto simp: SearchIssues_def returnedIssues_def split: prod.splits sum.splits)

lemma generous_example:
  "SearchIssues emptyCatalogue generousSearch [] ''project = A'' 3 0
     = ((Inr (replicate 3 oneBlob), []), 2)"
  by (simp add: SearchIssues_def loadCustomFields_def emptyCatalogue_def generousSearch_def
      defaultPageSize_def buildFields_def Let_def)

lemma exact_example:
  "SearchIssues brokenCatalogue exactSearch ''customfield_10010'' ''project = A'' 120 0
     = ((Inr (replicate 120 oneBlob), ''customfield_10010''), 4)"
  by (simp add: SearchIssues_def loadCustomFields_def brokenCatalogue_def exactSearch_def
      defaultPageSize_def buildFields_def Let_def replicate_add [symmetric])

theorem C10_search_at_most_maxResults_witness:
  "(1::int) \<le> 3
   \<and> int (length (returnedIssues (fst (fst
        (SearchIssues emptyCatalogue generousSearch [] ''project = A'' 3 0))))) \<le> 3
   \<and> SearchIssues emptyCatalogue generousSearch [] ''project = A'' 3 0
       = ((Inr (replicate 3 oneBlob), []), 2)
   \<and> SearchIssues brokenCatalogue exactSearch ''customfield_10010'' ''project = A'' 120 0
       = ((Inr (replicate 120 oneBlob), ''customfield_10010''), 4)"
proof -
  have pos: "(1::int) \<le> 3" by simp
  from C10_search_at_most_maxResults [OF pos, of emptyCatalogue generousSearch "[]" "''project = A''" 0]
    pos generous_example exact_example
  show ?thesis by blast
qed

end
